theory Spec2Isabelle
  imports Main
begin

section \<open>Errors and panics\<close>

text \<open>
  Go's \<^verbatim>\<open>error\<close> values, as the package builds them: \<^verbatim>\<open>errors.New\<close> and
  \<^verbatim>\<open>errors.Wrap\<close> of github.com/pkg/errors, the two \<^verbatim>\<open>*strconv.NumError\<close>s of
  \<^verbatim>\<open>strconv.Atoi\<close> (with the offending text), and whatever the HTTP layer reports.
  A nil error is \<open>None\<close>, so a Go result \<^verbatim>\<open>(T, error)\<close> is a pair \<open>T \<times> error option\<close>:
  Go returns a value of \<^verbatim>\<open>T\<close> beside a non-nil error too.
\<close>

datatype error =
    New string
  | Wrap error string
  | ErrSyntax string
  | ErrRange string
  | Transport string

text \<open>
  A run-time panic is not an \<^verbatim>\<open>error\<close>: it unwinds the goroutine and, unrecovered (nothing
  in the package recovers), ends the program. A call either panics or returns.
\<close>

datatype 'a outcome = Panic string | Return 'a

section \<open>The libraries\<close>

subsection \<open>gopkg.in/xmlpath.v2\<close>

text \<open>
  The document tree is the library's; the package never looks inside a node. A node is
  modelled by what the library lets the package observe: its string value
  (\<^verbatim>\<open>Node.String()\<close>) and, for every path expression, the nodes the compiled path
  selects from it, in document order (\<^verbatim>\<open>Path.Iter(node)\<close>). \<^verbatim>\<open>Path.String\<close> and
  \<^verbatim>\<open>Path.Exists\<close> are the library's one-liners over the iterator: the string value of
  the first selected node with \<^verbatim>\<open>true\<close>, or the empty string with \<^verbatim>\<open>false\<close>; and
  whether the iterator has a first node.
\<close>

datatype Node = Node (Node_String: string) (Iter: "string \<Rightarrow> Node list")

definition Path_String :: "string \<Rightarrow> Node \<Rightarrow> string \<times> bool" where
  "Path_String path context =
     (case Iter context path of [] \<Rightarrow> ('''', False) | n # _ \<Rightarrow> (Node_String n, True))"

definition Path_Exists :: "string \<Rightarrow> Node \<Rightarrow> bool" where
  "Path_Exists path context = (Iter context path \<noteq> [])"

subsection \<open>strings\<close>

definition HasPrefix :: "string \<Rightarrow> string \<Rightarrow> bool" where
  "HasPrefix s prefix = (length prefix \<le> length s \<and> take (length prefix) s = prefix)"

definition TrimPrefix :: "string \<Rightarrow> string \<Rightarrow> string" where
  "TrimPrefix s prefix = (if HasPrefix s prefix then drop (length prefix) s else s)"

text \<open>
  \<^verbatim>\<open>strings.Replace(s, old, new, -1)\<close> for a one-byte \<^verbatim>\<open>old\<close>, the only use the package
  makes of it (\<^verbatim>\<open>","\<close> replaced by the empty string, everywhere).
\<close>

fun Replace :: "string \<Rightarrow> char \<Rightarrow> string \<Rightarrow> string" where
  "Replace [] old new = []"
| "Replace (c # s) old new =
     (if c = old then new @ Replace s old new else c # Replace s old new)"

text \<open>
  \<^verbatim>\<open>strings.Split(s, sep)\<close> for a one-byte \<^verbatim>\<open>sep\<close>: the pieces between the separators,
  one more than there are separators.
\<close>

fun Split :: "string \<Rightarrow> char \<Rightarrow> string list" where
  "Split [] sep = [[]]"
| "Split (c # s) sep =
     (if c = sep then [] # Split s sep
      else (case Split s sep of [] \<Rightarrow> [[c]] | w # ws \<Rightarrow> (c # w) # ws))"

text \<open>Indexing a slice panics out of range.\<close>

definition index :: "'a list \<Rightarrow> nat \<Rightarrow> 'a outcome" where
  "index xs i =
     (if i < length xs then Return (xs ! i) else Panic ''runtime error: index out of range'')"

text \<open>\<^verbatim>\<open>strings.Trim(s, cutset)\<close>: the cutset's bytes removed at both ends.\<close>

definition Trim :: "string \<Rightarrow> string \<Rightarrow> string" where
  "Trim s cutset =
     rev (dropWhile (\<lambda>c. c \<in> set cutset) (rev (dropWhile (\<lambda>c. c \<in> set cutset) s)))"

subsection \<open>strconv\<close>

text \<open>
  \<^verbatim>\<open>strconv.Atoi\<close> on a 64-bit platform: an optional sign, then at least one decimal
  digit and nothing else. The digits are read left to right; the first byte that is no
  digit is a syntax error, a running value beyond \<open>2^64 - 1\<close> is a range error, and so
  is a result outside \<open>-2^63 .. 2^63 - 1\<close>. (The library has a fast path for short
  strings, which computes the same.) The callers drop Atoi's value when it reports an
  error, so the model returns the error or the value.
\<close>

definition isDigit :: "char \<Rightarrow> bool" where
  "isDigit c = (c \<in> set ''0123456789'')"

definition digitVal :: "char \<Rightarrow> nat" where
  "digitVal c = of_char c - 48"

datatype numError = SyntaxError | RangeError

fun ParseUint :: "string \<Rightarrow> nat \<Rightarrow> numError + nat" where
  "ParseUint [] n = Inr n"
| "ParseUint (c # s) n =
     (if \<not> isDigit c then Inl SyntaxError
      else if 2 ^ 64 - 1 < n * 10 + digitVal c then Inl RangeError
      else ParseUint s (n * 10 + digitVal c))"

definition Atoi :: "string \<Rightarrow> error + int" where
  "Atoi s =
     (if s = [] then Inl (ErrSyntax s)
      else
        let neg = (hd s = CHR ''-'');
            digits = (if hd s = CHR ''+'' \<or> hd s = CHR ''-'' then tl s else s)
        in if digits = [] then Inl (ErrSyntax s)
           else
             (case ParseUint digits 0 of
                Inl SyntaxError \<Rightarrow> Inl (ErrSyntax s)
              | Inl RangeError \<Rightarrow> Inl (ErrRange s)
              | Inr un \<Rightarrow>
                  if \<not> neg \<and> 2 ^ 63 \<le> un then Inl (ErrRange s)
                  else if neg \<and> 2 ^ 63 < un then Inl (ErrRange s)
                  else Inr (if neg then - int un else int un)))"

section \<open>The forum package\<close>

subsection \<open>Data\<close>

datatype VisitorMessage = VisitorMessage (vm_UserName: string) (vm_Message: string)

record UserProfile =
  UserName :: string
  JoinDate :: string
  TotalPosts :: int
  Reputation :: int
  BioText :: string
  VisitorMessages :: "VisitorMessage list"
  Errors :: "error list"

text \<open>\<^verbatim>\<open>var result UserProfile\<close>: every field at its zero value.\<close>

definition zeroUserProfile :: UserProfile where
  "zeroUserProfile =
     \<lparr>UserName = '''', JoinDate = '''', TotalPosts = 0, Reputation = 0, BioText = '''',
      VisitorMessages = [], Errors = []\<rparr>"

text \<open>
  What the package is given. \<^verbatim>\<open>GetHTMLRoot\<close> is a method of \<^verbatim>\<open>ForumClient\<close> whose body
  is not in the files at hand: it is a parameter, a function from the URL to the parsed
  document or an error. \<^verbatim>\<open>Compiles\<close> says which path expressions
  \<^verbatim>\<open>xmlpath.Compile\<close> accepts; the package's constant paths are taken to compile, and the
  one path it builds at run time is asked of \<^verbatim>\<open>Compiles\<close>.
\<close>

record ForumClient =
  GetHTMLRoot :: "string \<Rightarrow> error + Node"
  Compiles :: "string \<Rightarrow> bool"

definition MustCompile :: "ForumClient \<Rightarrow> string \<Rightarrow> string outcome" where
  "MustCompile fc path =
     (if Compiles fc path then Return path else Panic ''xmlpath: cannot compile path'')"

subsection \<open>The field extractors\<close>

definition userNamePath :: string where
  "userNamePath = ''//*[@id=\"username_box\"]/h1''"

definition getUserName :: "Node \<Rightarrow> string \<times> error option" where
  "getUserName root =
     (case Path_String userNamePath root of
        (result, ok) \<Rightarrow>
          if \<not> ok then (result, Some (New ''user name xmlpath did not return a result''))
          else (Trim result [CHR 0x0A, CHR '' ''], None))"

definition joinDatePath :: string where
  "joinDatePath = ''//*[@id=\"collapseobj_stats\"]/div/*/ul/*[contains(.,'Join Date: ')]''"

definition getJoinDate :: "Node \<Rightarrow> string \<times> error option" where
  "getJoinDate root =
     (case Path_String joinDatePath root of
        (result, ok) \<Rightarrow>
          if \<not> ok then (result, Some (New ''join date xmlpath did not return a result''))
          else (TrimPrefix result ''Join Date: '', None))"

definition totalPostsPath :: string where
  "totalPostsPath = ''//*[@id=\"collapseobj_stats\"]/div/fieldset[1]/ul/li[1]''"

definition getTotalPosts :: "Node \<Rightarrow> int \<times> error option" where
  "getTotalPosts root =
     (case Path_String totalPostsPath root of
        (posts, ok) \<Rightarrow>
          if \<not> ok then (0, Some (New ''total posts xmlpath did not return a result''))
          else
            (case Atoi (Replace (TrimPrefix posts ''Total Posts: '') CHR '','' '''') of
               Inl err \<Rightarrow> (0, Some (New ''cannot convert posts to integer''))
             | Inr result \<Rightarrow> (result, None)))"

definition userBioPath :: string where
  "userBioPath = ''//*[@id=\"collapseobj_aboutme\"]/div/ul/li[1]/dl/dd[1]''"

definition getUserBio :: "Node \<Rightarrow> string \<times> error option" where
  "getUserBio root =
     (case Path_String userBioPath root of
        (result, ok) \<Rightarrow>
          if \<not> ok then (result, Some (New ''user bio xmlpath did not return a result''))
          else (result, None))"

subsection \<open>Reputation: the chained lookup\<close>

definition searchURL :: "string \<Rightarrow> string" where
  "searchURL forumUserID = ''http://forum.sa-mp.com/search.php?do=finduser&u='' @ forumUserID"

definition postLinkPath :: string where
  "postLinkPath = ''//td[@class=\"alt1\"]/div[@class=\"alt2\"]/div/em/a/@href''"

definition postURL :: "string \<Rightarrow> string" where
  "postURL href = ''http://forum.sa-mp.com/'' @ href"

definition reputationPath :: "string \<Rightarrow> string" where
  "reputationPath anchor =
     ''//table[@id=\"'' @ anchor @
     ''\"]/tbody/tr[@valign=\"top\"]/td[@class=\"alt2\"]/*/*[contains(text(),'Reputation: ')]''"

text \<open>
  \<^verbatim>\<open>for fields.Next() { reputation = fields.Node().String() }\<close>: every selected node
  overwrites the variable.
\<close>

fun lastString :: "Node list \<Rightarrow> string \<Rightarrow> string" where
  "lastString [] reputation = reputation"
| "lastString (n # rest) reputation = lastString rest (Node_String n)"

definition getReputation :: "ForumClient \<Rightarrow> string \<Rightarrow> (int \<times> error option) outcome" where
  "getReputation fc forumUserID =
     (case GetHTMLRoot fc (searchURL forumUserID) of
        Inl err \<Rightarrow> Return (0, Some (Wrap err ''cannot get user's posts''))
      | Inr root \<Rightarrow>
          (case Path_String postLinkPath root of
             (href, ok) \<Rightarrow>
               if \<not> ok then Return (0, Some (New ''cannot get user posts''))
               else
                 (case GetHTMLRoot fc (postURL href) of
                    Inl err \<Rightarrow> Return (0, Some (Wrap err ''cannot get user's post in a topic''))
                  | Inr root' \<Rightarrow>
                      (case index (Split href CHR ''#'') 1 of
                         Panic msg \<Rightarrow> Panic msg
                       | Return anchor \<Rightarrow>
                           (case MustCompile fc (reputationPath anchor) of
                              Panic msg \<Rightarrow> Panic msg
                            | Return path \<Rightarrow>
                                (case Atoi (Replace
                                        (TrimPrefix (lastString (Iter root' path) '''')
                                           ''Reputation: '')
                                        CHR '','' '''') of
                                   Inl err \<Rightarrow>
                                     Return (0, Some (Wrap err
                                       ''cannot convert reputation to integer''))
                                 | Inr result \<Rightarrow> Return (result, None)))))))"

subsection \<open>Visitor messages\<close>

definition messageListPath :: string where
  "messageListPath = ''//*[@id=\"message_list\"]/*''"

definition userPath :: string where
  "userPath = ''.//div[2]/div[1]/div/a''"

definition textPath :: string where
  "textPath = ''.//div[2]/div[2]''"

text \<open>The loop over the message blocks; \<^verbatim>\<open>continue\<close> goes on with the next block.\<close>

fun messageLoop :: "Node list \<Rightarrow> VisitorMessage list \<Rightarrow> VisitorMessage list" where
  "messageLoop [] result = result"
| "messageLoop (messageBlock # rest) result =
     (case Path_String userPath messageBlock of
        (user, ok) \<Rightarrow>
          if \<not> ok then messageLoop rest result
          else
            (case Path_String textPath messageBlock of
               (txt, ok') \<Rightarrow>
                 if \<not> ok' then messageLoop rest result
                 else messageLoop rest (result @ [VisitorMessage user txt])))"

definition getFirstTenUserVisitorMessages :: "Node \<Rightarrow> VisitorMessage list \<times> error option" where
  "getFirstTenUserVisitorMessages root =
     (if \<not> Path_Exists messageListPath root
      then ([], Some (New ''visitor messages xmlpath did not return a result''))
      else (messageLoop (Iter root messageListPath) [], None))"

subsection \<open>The profile page\<close>

text \<open>\<^verbatim>\<open>if err != nil { result.Errors = append(result.Errors, err) }\<close>\<close>

definition appendError :: "error option \<Rightarrow> UserProfile \<Rightarrow> UserProfile" where
  "appendError err result =
     (case err of None \<Rightarrow> result | Some e \<Rightarrow> result\<lparr>Errors := Errors result @ [e]\<rparr>)"

definition memberURLPrefix :: string where
  "memberURLPrefix = ''http://forum.sa-mp.com/member.php?u=''"

definition GetUserProfilePage :: "ForumClient \<Rightarrow> string \<Rightarrow> (UserProfile \<times> error option) outcome" where
  "GetUserProfilePage fc url =
     (case GetHTMLRoot fc url of
        Inl err \<Rightarrow>
          Return (zeroUserProfile, Some (Wrap err ''failed to get HTML root for user page''))
      | Inr root \<Rightarrow>
          (case getUserName root of
             (name, Some err) \<Rightarrow>
               Return (zeroUserProfile\<lparr>UserName := name\<rparr>,
                       Some (Wrap err ''url did not lead to a valid user page''))
           | (name, None) \<Rightarrow>
               (let r1 = zeroUserProfile\<lparr>UserName := name\<rparr>;
                    r2 = appendError (snd (getJoinDate root))
                           (r1\<lparr>JoinDate := fst (getJoinDate root)\<rparr>);
                    r3 = appendError (snd (getTotalPosts root))
                           (r2\<lparr>TotalPosts := fst (getTotalPosts root)\<rparr>)
                in case getReputation fc (TrimPrefix url memberURLPrefix) of
                     Panic msg \<Rightarrow> Panic msg
                   | Return (reputation, err) \<Rightarrow>
                       (let r4 = appendError err (r3\<lparr>Reputation := reputation\<rparr>);
                            r5 = appendError (snd (getUserBio root))
                                   (r4\<lparr>BioText := fst (getUserBio root)\<rparr>);
                            r6 = appendError (snd (getFirstTenUserVisitorMessages root))
                                   (r5\<lparr>VisitorMessages :=
                                         fst (getFirstTenUserVisitorMessages root)\<rparr>)
                        in Return (r6, None)))))"

subsection \<open>The poller\<close>

text \<open>
  \<^verbatim>\<open>NewPostAlert\<close> starts one goroutine that runs its loop body once per tick received
  from the ticker. The model runs the body over the ticks the goroutine receives, in
  order; each tick carries the forum as it answers during that tick. The callback is
  opaque to the package, so the state counts its invocations; it also counts the calls
  of \<^verbatim>\<open>GetUserProfilePage\<close>. The goroutine is running, has returned, or has panicked
  (which ends the program).
\<close>

datatype goroutine = Running | Returned | Panicked

record poller =
  lastPostCount :: int
  callbacks :: nat
  extractions :: nat
  routine :: goroutine

definition memberURL :: "string \<Rightarrow> string" where
  "memberURL ident = ''http://forum.sa-mp.com/member.php?u='' @ ident"

definition tick :: "string \<Rightarrow> ForumClient \<Rightarrow> poller \<Rightarrow> poller" where
  "tick ident fc st =
     (case GetUserProfilePage fc (memberURL ident) of
        Panic msg \<Rightarrow> st\<lparr>extractions := extractions st + 1, routine := Panicked\<rparr>
      | Return (profile, Some err) \<Rightarrow>
          st\<lparr>extractions := extractions st + 1, routine := Returned\<rparr>
      | Return (profile, None) \<Rightarrow>
          if lastPostCount st = - 1
          then st\<lparr>extractions := extractions st + 1, lastPostCount := TotalPosts profile\<rparr>
          else if lastPostCount st < TotalPosts profile
          then st\<lparr>extractions := extractions st + 1, callbacks := callbacks st + 1,
                  lastPostCount := TotalPosts profile\<rparr>
          else st\<lparr>extractions := extractions st + 1\<rparr>)"

fun ticks :: "string \<Rightarrow> poller \<Rightarrow> ForumClient list \<Rightarrow> poller" where
  "ticks ident st [] = st"
| "ticks ident st (fc # fcs) =
     (if routine st = Running then ticks ident (tick ident fc st) fcs else st)"

definition NewPostAlert :: "string \<Rightarrow> ForumClient list \<Rightarrow> poller" where
  "NewPostAlert ident fcs =
     ticks ident \<lparr>lastPostCount = - 1, callbacks = 0, extractions = 0, routine = Running\<rparr> fcs"

section \<open>Vocabulary of the properties\<close>

subsection \<open>Decimal numerals\<close>

text \<open>
  The value of a string of digits in positional notation, most significant digit first;
  a numeral is an optional sign before at least one digit; the range of Go's \<^verbatim>\<open>int\<close>
  on a 64-bit platform.
\<close>

fun digitsValue :: "string \<Rightarrow> nat" where
  "digitsValue [] = 0"
| "digitsValue (c # s) = digitVal c * 10 ^ length s + digitsValue s"

definition numeric :: "string \<Rightarrow> bool" where
  "numeric s =
     (case s of
        [] \<Rightarrow> False
      | c # r \<Rightarrow>
          if c = CHR ''+'' \<or> c = CHR ''-'' then r \<noteq> [] \<and> list_all isDigit r
          else list_all isDigit s)"

definition numericValue :: "string \<Rightarrow> int" where
  "numericValue s =
     (case s of
        [] \<Rightarrow> 0
      | c # r \<Rightarrow>
          if c = CHR ''-'' then - int (digitsValue r)
          else if c = CHR ''+'' then int (digitsValue r)
          else int (digitsValue s))"

definition inIntRange :: "int \<Rightarrow> bool" where
  "inIntRange i = (- (2 ^ 63) \<le> i \<and> i < 2 ^ 63)"

subsection \<open>Soft failures, message blocks, observed post counts\<close>

text \<open>The errors among the results of the field extractors, in the order given.\<close>

fun failures :: "error option list \<Rightarrow> error list" where
  "failures [] = []"
| "failures (None # rest) = failures rest"
| "failures (Some e # rest) = e # failures rest"

text \<open>
  A message block is well formed when it has both an author and a body; its message is
  made of the string values of the first node at each of the two places.
\<close>

definition wellFormed :: "Node \<Rightarrow> bool" where
  "wellFormed block = (Iter block userPath \<noteq> [] \<and> Iter block textPath \<noteq> [])"

definition messageOf :: "Node \<Rightarrow> VisitorMessage" where
  "messageOf block =
     VisitorMessage (Node_String (hd (Iter block userPath)))
       (Node_String (hd (Iter block textPath)))"

text \<open>
  The post count a tick observes: the \<^verbatim>\<open>TotalPosts\<close> of the profile when the extraction
  succeeds, nothing when it fails outright or panics.
\<close>

definition observed :: "string \<Rightarrow> ForumClient \<Rightarrow> int option" where
  "observed ident fc =
     (case GetUserProfilePage fc (memberURL ident) of
        Return (profile, None) \<Rightarrow> Some (TotalPosts profile)
      | Return (profile, Some err) \<Rightarrow> None
      | Panic msg \<Rightarrow> None)"

text \<open>The poller once its goroutine has received the first \<open>k\<close> of the ticks.\<close>

definition afterTicks :: "string \<Rightarrow> ForumClient list \<Rightarrow> nat \<Rightarrow> poller" where
  "afterTicks ident fcs k = NewPostAlert ident (take k fcs)"

subsection \<open>Example documents\<close>

text \<open>
  Small documents for the concrete instances below. A leaf has a string value and no
  node under it. A profile page for user 3 holds a user name and a total-posts item; a
  client that serves only that page fails every other fetch with a transport error.
\<close>

definition leaf :: "string \<Rightarrow> Node" where
  "leaf s = Node s (\<lambda>path. [])"

definition profileRoot :: "string \<Rightarrow> string \<Rightarrow> Node" where
  "profileRoot name posts =
     Node '''' (\<lambda>path. if path = userNamePath then [leaf name]
                     else if path = totalPostsPath then [leaf posts] else [])"

definition pageOnlyClient :: "Node \<Rightarrow> ForumClient" where
  "pageOnlyClient root =
     \<lparr>GetHTMLRoot = (\<lambda>url. if url = memberURL ''3'' then Inr root
                           else Inl (Transport ''connection refused'')),
      Compiles = (\<lambda>path. True)\<rparr>"

definition postsClient :: "string \<Rightarrow> ForumClient" where
  "postsClient posts = pageOnlyClient (profileRoot ''Kalcor'' posts)"

text \<open>
  A forum whose search page for user 3 links to a post by \<open>href\<close>, and whose every other
  page is a discussion page on which the reputation query for the anchor \<open>post7\<close>
  selects \<open>found\<close>. The member page of user 3 is a profile page with a user name and a
  total-posts item.
\<close>

definition searchRoot :: "string \<Rightarrow> Node" where
  "searchRoot href = Node '''' (\<lambda>path. if path = postLinkPath then [leaf href] else [])"

definition discussionRoot :: "Node list \<Rightarrow> Node" where
  "discussionRoot found =
     Node '''' (\<lambda>path. if path = reputationPath ''post7'' then found else [])"

definition reputationClient :: "string \<Rightarrow> Node list \<Rightarrow> ForumClient" where
  "reputationClient href found =
     \<lparr>GetHTMLRoot = (\<lambda>url. if url = memberURL ''3''
                           then Inr (profileRoot ''Kalcor'' ''Total Posts: 7'')
                           else if url = searchURL ''3'' then Inr (searchRoot href)
                           else Inr (discussionRoot found)),
      Compiles = (\<lambda>path. True)\<rparr>"

text \<open>A message block with or without its author and its body, and a page of blocks.\<close>

definition messageBlock :: "string option \<Rightarrow> string option \<Rightarrow> Node" where
  "messageBlock user body =
     Node '''' (\<lambda>path. if path = userPath then (case user of None \<Rightarrow> [] | Some u \<Rightarrow> [leaf u])
                     else if path = textPath then (case body of None \<Rightarrow> [] | Some b \<Rightarrow> [leaf b])
                     else [])"

definition messagesRoot :: "Node list \<Rightarrow> Node" where
  "messagesRoot blocks =
     Node '''' (\<lambda>path. if path = userNamePath then [leaf ''Kalcor'']
                     else if path = messageListPath then blocks else [])"

section \<open>Properties\<close>

subsection \<open>The libraries\<close>

lemma Path_String_Nil: "Iter root path = [] \<Longrightarrow> Path_String path root = ('''', False)"
  by (simp add: Path_String_def)

lemma Path_String_Cons:
  "Iter root path = n # ns \<Longrightarrow> Path_String path root = (Node_String n, True)"
  by (simp add: Path_String_def)

lemma Replace_empty: "Replace s c [] = filter (\<lambda>x. x \<noteq> c) s"
  by (induction s) simp_all

lemma Trim_eq_Nil: "Trim s cutset = [] \<longleftrightarrow> set s \<subseteq> set cutset"
proof
  let ?P = "\<lambda>c. c \<in> set cutset"
  assume "Trim s cutset = []"
  then have "dropWhile ?P (rev (dropWhile ?P s)) = []"
    unfolding Trim_def rev_is_Nil_conv .
  then have all: "\<forall>x \<in> set (dropWhile ?P s). ?P x"
    unfolding dropWhile_eq_Nil_conv set_rev .
  have "dropWhile ?P s = []"
  proof (rule ccontr)
    assume ne: "dropWhile ?P s \<noteq> []"
    then have "\<not> ?P (hd (dropWhile ?P s))" by (rule hd_dropWhile)
    moreover from ne have "hd (dropWhile ?P s) \<in> set (dropWhile ?P s)" by (rule hd_in_set)
    ultimately show False using all by blast
  qed
  then show "set s \<subseteq> set cutset"
    unfolding dropWhile_eq_Nil_conv by blast
next
  let ?P = "\<lambda>c. c \<in> set cutset"
  assume "set s \<subseteq> set cutset"
  then have "\<forall>x \<in> set s. ?P x" by blast
  then have "dropWhile ?P s = []" unfolding dropWhile_eq_Nil_conv .
  then show "Trim s cutset = []"
    by (simp only: Trim_def rev.simps dropWhile.simps)
qed

lemma Split_length: "length (Split s sep) = Suc (length (filter (\<lambda>c. c = sep) s))"
  by (induction s) (auto split: list.splits)

lemma lastString_last:
  "lastString found reputation = (if found = [] then reputation else Node_String (last found))"
  by (induction found arbitrary: reputation) simp_all

subsection \<open>Atoi reads decimal numerals\<close>

lemma ParseUint_digits:
  "list_all isDigit s \<Longrightarrow> n \<le> 2 ^ 64 - 1 \<Longrightarrow>
   ParseUint s n =
     (if n * 10 ^ length s + digitsValue s \<le> 2 ^ 64 - 1
      then Inr (n * 10 ^ length s + digitsValue s) else Inl RangeError)"
proof (induction s arbitrary: n)
  case Nil
  then show ?case by simp
next
  case (Cons c s)
  let ?m = "n * 10 + digitVal c"
  have eq: "?m * 10 ^ length s + digitsValue s = n * 10 ^ length (c # s) + digitsValue (c # s)"
    by (simp add: algebra_simps)
  have ge: "?m \<le> ?m * 10 ^ length s + digitsValue s"
    by (simp add: trans_le_add1)
  from Cons.prems have c: "isDigit c" and s: "list_all isDigit s" by simp_all
  show ?case
  proof (cases "2 ^ 64 - 1 < ?m")
    case True
    with ge eq have "\<not> n * 10 ^ length (c # s) + digitsValue (c # s) \<le> 2 ^ 64 - 1"
      by linarith
    with True c show ?thesis by simp
  next
    case False
    with c have "ParseUint (c # s) n = ParseUint s ?m" by simp
    also have "\<dots> = (if ?m * 10 ^ length s + digitsValue s \<le> 2 ^ 64 - 1
      then Inr (?m * 10 ^ length s + digitsValue s) else Inl RangeError)"
      using False by (intro Cons.IH [OF s]) simp
    finally show ?thesis unfolding eq .
  qed
qed

lemma ParseUint_not_digits:
  "\<not> list_all isDigit s \<Longrightarrow> \<exists>e. ParseUint s n = Inl e"
  by (induction s arbitrary: n) auto

lemma not_sign_digit: "isDigit c \<Longrightarrow> c \<noteq> CHR ''+'' \<and> c \<noteq> CHR ''-''"
  by (auto simp: isDigit_def)

lemma Atoi_unsigned:
  assumes "s \<noteq> []" "list_all isDigit s"
  shows "Atoi s = (if digitsValue s < 2 ^ 63 then Inr (int (digitsValue s)) else Inl (ErrRange s))"
proof -
  from assms obtain c r where s: "s = c # r" and c: "isDigit c" by (cases s) auto
  from c have ns: "hd s \<noteq> CHR ''+''" "hd s \<noteq> CHR ''-''" using not_sign_digit s by auto
  show ?thesis
    using assms ns by (simp add: Atoi_def ParseUint_digits [OF assms(2), of 0] Let_def)
qed

lemma Atoi_signed:
  assumes "c = CHR ''+'' \<or> c = CHR ''-''" "r \<noteq> []" "list_all isDigit r"
  shows "Atoi (c # r) =
           (if inIntRange (numericValue (c # r)) then Inr (numericValue (c # r))
            else Inl (ErrRange (c # r)))"
proof (cases "digitsValue r \<le> 2 ^ 64 - 1")
  case True
  then show ?thesis
    using assms
    by (auto simp: Atoi_def ParseUint_digits [OF assms(3), of 0] Let_def inIntRange_def
        numericValue_def)
next
  case False
  then show ?thesis
    using assms
    by (auto simp: Atoi_def ParseUint_digits [OF assms(3), of 0] Let_def inIntRange_def
        numericValue_def)
qed

lemma Atoi_numeric:
  assumes "numeric s"
  shows "Atoi s = (if inIntRange (numericValue s) then Inr (numericValue s) else Inl (ErrRange s))"
proof (cases s)
  case Nil
  with assms show ?thesis by (simp add: numeric_def)
next
  case (Cons c r)
  show ?thesis
  proof (cases "c = CHR ''+'' \<or> c = CHR ''-''")
    case True
    with assms Cons have "r \<noteq> []" "list_all isDigit r" by (auto simp: numeric_def)
    from Atoi_signed [OF True this] Cons show ?thesis by simp
  next
    case False
    with assms Cons have d: "s \<noteq> []" "list_all isDigit s" by (auto simp: numeric_def)
    from False Cons have v: "numericValue s = int (digitsValue s)"
      by (simp add: numericValue_def)
    have "0 \<le> int (digitsValue s)" by simp
    then show ?thesis
      unfolding Atoi_unsigned [OF d] v inIntRange_def by auto
  qed
qed

lemma Atoi_not_numeric:
  assumes "\<not> numeric s"
  shows "\<exists>e. Atoi s = Inl e"
proof (cases s)
  case Nil
  then show ?thesis by (simp add: Atoi_def)
next
  case (Cons c r)
  show ?thesis
  proof (cases "c = CHR ''+'' \<or> c = CHR ''-''")
    case True
    with assms Cons have "r = [] \<or> \<not> list_all isDigit r" by (auto simp: numeric_def)
    then show ?thesis
    proof
      assume "r = []"
      with True Cons show ?thesis by (auto simp: Atoi_def)
    next
      assume "\<not> list_all isDigit r"
      from ParseUint_not_digits [OF this, of 0] obtain e where "ParseUint r 0 = Inl e" ..
      with True Cons show ?thesis
        by (cases e) (auto simp: Atoi_def Let_def)
    qed
  next
    case False
    with assms Cons have "\<not> list_all isDigit s" by (auto simp: numeric_def)
    from ParseUint_not_digits [OF this, of 0] obtain e where "ParseUint s 0 = Inl e" ..
    with False Cons show ?thesis
      by (cases e) (auto simp: Atoi_def Let_def)
  qed
qed

text \<open>Atoi fails exactly off the numerals that fit an \<^verbatim>\<open>int\<close>.\<close>

lemma Atoi_fails:
  "\<not> (numeric s \<and> inIntRange (numericValue s)) \<Longrightarrow> \<exists>e. Atoi s = Inl e"
  using Atoi_numeric [of s] Atoi_not_numeric [of s] by (cases "numeric s") auto

lemma Atoi_reads:
  "numeric s \<Longrightarrow> inIntRange (numericValue s) \<Longrightarrow> Atoi s = Inr (numericValue s)"
  by (simp add: Atoi_numeric)

subsection \<open>The field extractors\<close>

lemma getUserName_missing:
  "Iter root userNamePath = [] \<Longrightarrow>
   getUserName root = ('''', Some (New ''user name xmlpath did not return a result''))"
  by (simp add: getUserName_def Path_String_Nil)

lemma getUserName_found:
  "Iter root userNamePath = n # ns \<Longrightarrow>
   getUserName root = (Trim (Node_String n) [CHR 0x0A, CHR '' ''], None)"
  by (simp add: getUserName_def Path_String_Cons)

lemma getUserName_None:
  assumes "getUserName root = (name, None)"
  shows "\<exists>n ns. Iter root userNamePath = n # ns \<and> name = Trim (Node_String n) [CHR 0x0A, CHR '' '']"
proof (cases "Iter root userNamePath")
  case Nil
  from getUserName_missing [OF this] assms show ?thesis by simp
next
  case (Cons n ns)
  from getUserName_found [OF this] assms Cons show ?thesis by simp
qed

lemma getJoinDate_zero: "snd (getJoinDate root) \<noteq> None \<Longrightarrow> fst (getJoinDate root) = ''''"
  by (cases "Iter root joinDatePath") (simp_all add: getJoinDate_def Path_String_def)

lemma getTotalPosts_zero: "snd (getTotalPosts root) \<noteq> None \<Longrightarrow> fst (getTotalPosts root) = 0"
  by (cases "Iter root totalPostsPath")
    (simp_all add: getTotalPosts_def Path_String_def split: sum.splits)

lemma getUserBio_zero: "snd (getUserBio root) \<noteq> None \<Longrightarrow> fst (getUserBio root) = ''''"
  by (cases "Iter root userBioPath") (simp_all add: getUserBio_def Path_String_def)

lemma getTotalPosts_found:
  "Iter root totalPostsPath = n # ns \<Longrightarrow>
   getTotalPosts root =
     (case Atoi (filter (\<lambda>c. c \<noteq> CHR '','') (TrimPrefix (Node_String n) ''Total Posts: '')) of
        Inl err \<Rightarrow> (0, Some (New ''cannot convert posts to integer''))
      | Inr result \<Rightarrow> (result, None))"
  by (simp add: getTotalPosts_def Path_String_Cons Replace_empty)

subsection \<open>Visitor messages\<close>

lemma messageLoop_filter:
  "messageLoop blocks result = result @ map messageOf (filter wellFormed blocks)"
proof (induction blocks arbitrary: result)
  case Nil
  show ?case by simp
next
  case (Cons b blocks)
  show ?case
    by (cases "Iter b userPath"; cases "Iter b textPath")
      (simp_all add: Cons.IH Path_String_def wellFormed_def messageOf_def)
qed

lemma getFirstTenUserVisitorMessages_eq:
  "getFirstTenUserVisitorMessages root =
     (map messageOf (filter wellFormed (Iter root messageListPath)),
      if Iter root messageListPath = []
      then Some (New ''visitor messages xmlpath did not return a result'') else None)"
  by (simp add: getFirstTenUserVisitorMessages_def Path_Exists_def messageLoop_filter)

lemma getFirstTenUserVisitorMessages_zero:
  "snd (getFirstTenUserVisitorMessages root) \<noteq> None \<Longrightarrow>
   fst (getFirstTenUserVisitorMessages root) = []"
  by (simp add: getFirstTenUserVisitorMessages_def split: if_splits)

subsection \<open>The reputation lookup\<close>

text \<open>
  When the search page has a post link whose \<open>href\<close> has a fragment, the linked page is
  fetched and the path for the fragment compiles, the lookup returns what Atoi makes of
  the last selected node (of the empty string when no node is selected).
\<close>

lemma getReputation_reached:
  assumes "GetHTMLRoot fc (searchURL forumUserID) = Inr root"
    and "Iter root postLinkPath = link # links"
    and "GetHTMLRoot fc (postURL (Node_String link)) = Inr root'"
    and "index (Split (Node_String link) CHR ''#'') 1 = Return anchor"
    and "Compiles fc (reputationPath anchor)"
    and "Iter root' (reputationPath anchor) = found"
  shows "getReputation fc forumUserID =
     (case Atoi (filter (\<lambda>c. c \<noteq> CHR '','')
             (TrimPrefix (lastString found '''') ''Reputation: '')) of
        Inl err \<Rightarrow> Return (0, Some (Wrap err ''cannot convert reputation to integer''))
      | Inr result \<Rightarrow> Return (result, None))"
  using assms
  by (simp add: getReputation_def Path_String_Cons MustCompile_def Replace_empty)

text \<open>
  The lookup panics in two places only, both after the linked page has been fetched: at
  the index into the pieces of a permalink that has no \<open>#\<close>, and at the compilation of
  the path built from the fragment. Every other way through it returns.
\<close>

lemma index_Split_Panic:
  "(\<exists>msg. index (Split s sep) 1 = Panic msg) \<longleftrightarrow> sep \<notin> set s"
proof -
  have "length (filter (\<lambda>c. c = sep) s) = 0 \<longleftrightarrow> sep \<notin> set s"
    by (induction s) auto
  then show ?thesis
    by (auto simp: index_def Split_length)
qed

lemma getReputation_Panic:
  assumes "getReputation fc forumUserID = Panic msg"
  shows "\<exists>root link links root'.
           GetHTMLRoot fc (searchURL forumUserID) = Inr root \<and>
           Iter root postLinkPath = link # links \<and>
           GetHTMLRoot fc (postURL (Node_String link)) = Inr root' \<and>
           (CHR ''#'' \<notin> set (Node_String link) \<or>
            (\<exists>anchor. index (Split (Node_String link) CHR ''#'') 1 = Return anchor \<and>
               \<not> Compiles fc (reputationPath anchor)))"
proof (cases "GetHTMLRoot fc (searchURL forumUserID)")
  case (Inl err)
  with assms show ?thesis by (simp add: getReputation_def)
next
  case root: (Inr root)
  show ?thesis
  proof (cases "Iter root postLinkPath")
    case Nil
    with assms root show ?thesis by (simp add: getReputation_def Path_String_def)
  next
    case link: (Cons link links)
    show ?thesis
    proof (cases "GetHTMLRoot fc (postURL (Node_String link))")
      case (Inl err)
      with assms root link show ?thesis by (simp add: getReputation_def Path_String_def)
    next
      case page: (Inr root')
      show ?thesis
      proof (cases "index (Split (Node_String link) CHR ''#'') 1")
        case (Panic m)
        then have "CHR ''#'' \<notin> set (Node_String link)"
          using index_Split_Panic [of "Node_String link" "CHR ''#''"] by blast
        with root link page show ?thesis by blast
      next
        case (Return anchor)
        have "\<not> Compiles fc (reputationPath anchor)"
        proof
          assume "Compiles fc (reputationPath anchor)"
          from getReputation_reached [OF root link page Return this refl] assms
          show False by (simp split: sum.splits)
        qed
        with root link page Return show ?thesis by blast
      qed
    qed
  qed
qed

lemma getReputation_zero:
  "getReputation fc forumUserID = Return (reputation, Some err) \<Longrightarrow> reputation = 0"
  by (auto simp: getReputation_def split: sum.splits prod.splits if_splits outcome.splits)

subsection \<open>The profile page\<close>

lemma failures_append: "failures (xs @ ys) = failures xs @ failures ys"
  by (induction xs rule: failures.induct) simp_all

lemma appendError_Errors:
  "Errors (appendError err result) = Errors result @ failures [err]"
  by (cases err) (simp_all add: appendError_def)

lemma GetUserProfilePage_fetch_failed:
  "GetHTMLRoot fc url = Inl err \<Longrightarrow>
   GetUserProfilePage fc url =
     Return (zeroUserProfile, Some (Wrap err ''failed to get HTML root for user page''))"
  by (simp add: GetUserProfilePage_def)

lemma GetUserProfilePage_invalid:
  "GetHTMLRoot fc url = Inr root \<Longrightarrow> getUserName root = (name, Some err) \<Longrightarrow>
   GetUserProfilePage fc url =
     Return (zeroUserProfile\<lparr>UserName := name\<rparr>,
             Some (Wrap err ''url did not lead to a valid user page''))"
  by (simp add: GetUserProfilePage_def)

lemma GetUserProfilePage_panics:
  "GetHTMLRoot fc url = Inr root \<Longrightarrow> getUserName root = (name, None) \<Longrightarrow>
   getReputation fc (TrimPrefix url memberURLPrefix) = Panic msg \<Longrightarrow>
   GetUserProfilePage fc url = Panic msg"
  by (simp add: GetUserProfilePage_def Let_def)

lemma GetUserProfilePage_returns:
  assumes "GetHTMLRoot fc url = Inr root"
    and "getUserName root = (name, None)"
    and "getReputation fc (TrimPrefix url memberURLPrefix) = Return (reputation, err)"
  shows "GetUserProfilePage fc url =
     Return (\<lparr>UserName = name,
              JoinDate = fst (getJoinDate root),
              TotalPosts = fst (getTotalPosts root),
              Reputation = reputation,
              BioText = fst (getUserBio root),
              VisitorMessages = fst (getFirstTenUserVisitorMessages root),
              Errors = failures [snd (getJoinDate root), snd (getTotalPosts root), err,
                         snd (getUserBio root), snd (getFirstTenUserVisitorMessages root)]\<rparr>,
             None)"
proof -
  have split: "failures [a, b, c, d, e] =
      failures [a] @ failures [b] @ failures [c] @ failures [d] @ failures [e]" for a b c d e
    using failures_append [of "[a]" "[b, c, d, e]"] failures_append [of "[b]" "[c, d, e]"]
      failures_append [of "[c]" "[d, e]"] failures_append [of "[d]" "[e]"]
    by simp
  show ?thesis
    unfolding split using assms
    by (cases "snd (getJoinDate root)"; cases "snd (getTotalPosts root)"; cases err;
        cases "snd (getUserBio root)"; cases "snd (getFirstTenUserVisitorMessages root)")
      (simp_all add: GetUserProfilePage_def Let_def appendError_def zeroUserProfile_def)
qed

text \<open>The three ways the call ends, read backwards.\<close>

lemma GetUserProfilePage_success:
  assumes "GetUserProfilePage fc url = Return (profile, None)"
  obtains root name reputation err where
    "GetHTMLRoot fc url = Inr root" and "getUserName root = (name, None)" and
    "getReputation fc (TrimPrefix url memberURLPrefix) = Return (reputation, err)"
proof (cases "GetHTMLRoot fc url")
  case (Inl e)
  from GetUserProfilePage_fetch_failed [OF this] assms show ?thesis by simp
next
  case (Inr root)
  obtain name uerr where u: "getUserName root = (name, uerr)" by (cases "getUserName root")
  show ?thesis
  proof (cases uerr)
    case (Some e)
    from GetUserProfilePage_invalid [OF Inr u [unfolded Some]] assms show ?thesis by simp
  next
    case None
    note u' = u [unfolded None]
    show ?thesis
    proof (cases "getReputation fc (TrimPrefix url memberURLPrefix)")
      case (Panic msg)
      from GetUserProfilePage_panics [OF Inr u' this] assms show ?thesis by simp
    next
      case (Return r)
      then obtain reputation err where
        "getReputation fc (TrimPrefix url memberURLPrefix) = Return (reputation, err)"
        by (cases r) simp
      with Inr u' show ?thesis by (rule that)
    qed
  qed
qed

subsection \<open>The poller\<close>

lemma ticks_stopped: "routine st \<noteq> Running \<Longrightarrow> ticks ident st fcs = st"
  by (cases fcs) simp_all

lemma ticks_append: "ticks ident st (fcs @ fcs') = ticks ident (ticks ident st fcs) fcs'"
proof (induction fcs arbitrary: st)
  case Nil
  show ?case by simp
next
  case (Cons fc fcs)
  show ?case
  proof (cases "routine st = Running")
    case True
    then show ?thesis by (simp add: Cons.IH)
  next
    case False
    then show ?thesis by (simp add: ticks_stopped)
  qed
qed

lemma ticks_snoc:
  "ticks ident st (fcs @ [fc]) =
     (if routine (ticks ident st fcs) = Running then tick ident fc (ticks ident st fcs)
      else ticks ident st fcs)"
  by (simp add: ticks_append)

lemma tick_failed:
  "GetUserProfilePage fc (memberURL ident) = Return (profile, Some err) \<Longrightarrow>
   tick ident fc st = st\<lparr>extractions := extractions st + 1, routine := Returned\<rparr>"
  by (simp add: tick_def)

lemma observed_Some:
  "observed ident fc = Some c \<longleftrightarrow>
   (\<exists>profile. GetUserProfilePage fc (memberURL ident) = Return (profile, None) \<and>
      TotalPosts profile = c)"
  by (auto simp: observed_def split: outcome.splits prod.splits option.splits)

lemma tick_observed:
  "observed ident fc = Some c \<Longrightarrow>
   tick ident fc st =
     (if lastPostCount st = - 1
      then st\<lparr>extractions := extractions st + 1, lastPostCount := c\<rparr>
      else if lastPostCount st < c
      then st\<lparr>extractions := extractions st + 1, callbacks := callbacks st + 1,
              lastPostCount := c\<rparr>
      else st\<lparr>extractions := extractions st + 1\<rparr>)"
  by (auto simp: observed_Some tick_def)

lemma tick_not_observed:
  "observed ident fc = None \<Longrightarrow>
   lastPostCount (tick ident fc st) = lastPostCount st \<and>
   callbacks (tick ident fc st) = callbacks st \<and> routine (tick ident fc st) \<noteq> Running"
  by (auto simp: observed_def tick_def split: outcome.splits prod.splits option.splits)

lemma tick_observed_routine:
  "observed ident fc = Some c \<Longrightarrow> routine (tick ident fc st) = routine st"
  by (simp add: tick_observed)

lemma ticks_observed_routine:
  "map (observed ident) fcs = map Some counts \<Longrightarrow>
   routine (ticks ident st fcs) = routine st"
proof (induction fcs arbitrary: st counts)
  case Nil
  show ?case by simp
next
  case (Cons fc fcs)
  from Cons.prems obtain c cs where counts: "counts = c # cs"
    and c: "observed ident fc = Some c" and cs: "map (observed ident) fcs = map Some cs"
    by (cases counts) auto
  show ?case
    by (simp add: Cons.IH [OF cs] tick_observed_routine [OF c])
qed

lemma NewPostAlert_observed_Running:
  "map (observed ident) fcs = map Some counts \<Longrightarrow> routine (NewPostAlert ident fcs) = Running"
  by (simp add: NewPostAlert_def ticks_observed_routine)

lemma observed_take:
  "map (observed ident) fcs = map Some counts \<Longrightarrow>
   map (observed ident) (take k fcs) = map Some (take k counts)"
  by (simp add: take_map [symmetric])

lemma observed_nth:
  assumes "map (observed ident) fcs = map Some counts" and "k < length fcs"
  shows "observed ident (fcs ! k) = Some (counts ! k)"
proof -
  from assms(1) have len: "length fcs = length counts"
    using length_map by metis
  from assms(1) have "map (observed ident) fcs ! k = map Some counts ! k" by simp
  with assms(2) len show ?thesis by simp
qed

text \<open>One more tick, while every tick so far has succeeded.\<close>

lemma NewPostAlert_Suc:
  assumes "map (observed ident) fcs = map Some counts" and "k < length fcs"
  shows "NewPostAlert ident (take (Suc k) fcs) =
           tick ident (fcs ! k) (NewPostAlert ident (take k fcs))"
proof -
  have run: "routine (NewPostAlert ident (take k fcs)) = Running"
    by (rule NewPostAlert_observed_Running [OF observed_take [OF assms(1)]])
  from assms(2) have "take (Suc k) fcs = take k fcs @ [fcs ! k]"
    by (rule take_Suc_conv_app_nth)
  then show ?thesis
    using run by (simp add: NewPostAlert_def ticks_append)
qed

text \<open>
  After at least one successful tick the stored count is one of the observed counts, so
  it is not the marker \<open>-1\<close> unless \<open>-1\<close> was observed.
\<close>

lemma tick_lastPostCount_observed:
  "observed ident fc = Some c \<Longrightarrow>
   lastPostCount (tick ident fc st) = c \<or>
   (lastPostCount (tick ident fc st) = lastPostCount st \<and> lastPostCount st \<noteq> - 1)"
  by (simp add: tick_observed)

lemma NewPostAlert_lastPostCount_mem:
  assumes "map (observed ident) fcs = map Some counts" and "0 < k" and "k \<le> length fcs"
  shows "lastPostCount (NewPostAlert ident (take k fcs)) \<in> set counts"
  using assms(2,3)
proof (induction k)
  case 0
  then show ?case by simp
next
  case (Suc k)
  then have k: "k < length fcs" by simp
  from assms(1) have len: "length fcs = length counts" using length_map by metis
  note step = NewPostAlert_Suc [OF assms(1) k]
  note obs = observed_nth [OF assms(1) k]
  from k len have mem: "counts ! k \<in> set counts" by simp
  from tick_lastPostCount_observed [OF obs, of "NewPostAlert ident (take k fcs)"]
  show ?case
  proof
    assume "lastPostCount (tick ident (fcs ! k) (NewPostAlert ident (take k fcs))) = counts ! k"
    with step mem show ?thesis by simp
  next
    assume keep: "lastPostCount (tick ident (fcs ! k) (NewPostAlert ident (take k fcs))) =
        lastPostCount (NewPostAlert ident (take k fcs)) \<and>
        lastPostCount (NewPostAlert ident (take k fcs)) \<noteq> - 1"
    have "k \<noteq> 0"
    proof
      assume "k = 0"
      with keep show False by (simp add: NewPostAlert_def)
    qed
    then have "lastPostCount (NewPostAlert ident (take k fcs)) \<in> set counts"
      using Suc.IH k by simp
    with step keep show ?thesis by simp
  qed
qed

subsection \<open>The example documents\<close>

lemma member_not_search: "memberURL ''3'' \<noteq> searchURL ''3''"
  by (simp add: memberURL_def searchURL_def)

lemma post_not_member:
  "postURL ''showthread.php?p=7'' \<noteq> memberURL ''3''"
  "postURL ''showthread.php?p=7#post7'' \<noteq> memberURL ''3''"
  by (simp_all add: memberURL_def postURL_def)

lemma post_not_search:
  "postURL ''showthread.php?p=7'' \<noteq> searchURL ''3''"
  "postURL ''showthread.php?p=7#post7'' \<noteq> searchURL ''3''"
  by (simp_all add: searchURL_def postURL_def)

lemma member_id: "TrimPrefix (memberURL ident) memberURLPrefix = ident"
  by (simp add: TrimPrefix_def HasPrefix_def memberURL_def memberURLPrefix_def)

lemma paths_distinct:
  "userNamePath \<noteq> joinDatePath" "userNamePath \<noteq> totalPostsPath" "userNamePath \<noteq> userBioPath"
  "userNamePath \<noteq> messageListPath" "totalPostsPath \<noteq> joinDatePath"
  "totalPostsPath \<noteq> userBioPath" "totalPostsPath \<noteq> messageListPath"
  "messageListPath \<noteq> joinDatePath" "messageListPath \<noteq> userBioPath"
  "userPath \<noteq> textPath"
  by (simp_all add: userNamePath_def joinDatePath_def totalPostsPath_def userBioPath_def
      messageListPath_def userPath_def textPath_def)

lemma reputationClient_search:
  "GetHTMLRoot (reputationClient href found) (searchURL ''3'') = Inr (searchRoot href)"
  using member_not_search by (simp add: reputationClient_def)

lemma reputationClient_post:
  "GetHTMLRoot (reputationClient href found) (postURL ''showthread.php?p=7'') =
     Inr (discussionRoot found)"
  "GetHTMLRoot (reputationClient href found) (postURL ''showthread.php?p=7#post7'') =
     Inr (discussionRoot found)"
  by (simp_all add: reputationClient_def post_not_member post_not_search)

lemma reputationClient_member:
  "GetHTMLRoot (reputationClient href found) (memberURL ''3'') =
     Inr (profileRoot ''Kalcor'' ''Total Posts: 7'')"
  by (simp add: reputationClient_def)

lemma searchRoot_link: "Iter (searchRoot href) postLinkPath = [leaf href]"
  by (simp add: searchRoot_def)

lemma discussionRoot_found: "Iter (discussionRoot found) (reputationPath ''post7'') = found"
  by (simp add: discussionRoot_def)

lemma pageOnlyClient_member: "GetHTMLRoot (pageOnlyClient root) (memberURL ''3'') = Inr root"
  by (simp add: pageOnlyClient_def)

lemma pageOnlyClient_reputation:
  "getReputation (pageOnlyClient root) ''3'' =
     Return (0, Some (Wrap (Transport ''connection refused'') ''cannot get user's posts''))"
  using member_not_search by (simp add: getReputation_def pageOnlyClient_def)

lemma profileRoot_name: "getUserName (profileRoot ''Kalcor'' posts) = (''Kalcor'', None)"
  by (simp add: getUserName_def Path_String_def profileRoot_def leaf_def Trim_def)

lemma Split_no_fragment: "index (Split ''showthread.php?p=7'' CHR ''#'') 1 =
  Panic ''runtime error: index out of range''"
  by (simp add: index_def)

lemma Split_fragment: "index (Split ''showthread.php?p=7#post7'' CHR ''#'') 1 = Return ''post7''"
  by (simp add: index_def)

subsection \<open>Soft failures while the reputation lookup returns\<close>

text \<open>
  On a page with a user name, and as long as the reputation lookup returns (with a value
  or with an error), the call succeeds whatever fields fail: \<^verbatim>\<open>Errors\<close> holds one error
  per failing field, in the order join date, total posts, reputation, bio, visitor
  messages, and a failing field is left at its zero value.
\<close>

lemma length_failures: "length (failures errs) = length (filter (\<lambda>e. e \<noteq> None) errs)"
  by (induction errs rule: failures.induct) simp_all

lemma soft_failures_collected:
  assumes "GetHTMLRoot fc url = Inr root"
    and "getUserName root = (name, None)"
    and "getReputation fc (TrimPrefix url memberURLPrefix) = Return (reputation, err)"
    and "results = [snd (getJoinDate root), snd (getTotalPosts root), err,
           snd (getUserBio root), snd (getFirstTenUserVisitorMessages root)]"
  shows "\<exists>profile.
           GetUserProfilePage fc url = Return (profile, None) \<and>
           Errors profile = failures results \<and>
           length (Errors profile) = length (filter (\<lambda>e. e \<noteq> None) results) \<and>
           UserName profile = name \<and>
           JoinDate profile = fst (getJoinDate root) \<and>
           TotalPosts profile = fst (getTotalPosts root) \<and>
           Reputation profile = reputation \<and>
           BioText profile = fst (getUserBio root) \<and>
           VisitorMessages profile = fst (getFirstTenUserVisitorMessages root) \<and>
           (snd (getJoinDate root) \<noteq> None \<longrightarrow> JoinDate profile = '''') \<and>
           (snd (getTotalPosts root) \<noteq> None \<longrightarrow> TotalPosts profile = 0) \<and>
           (err \<noteq> None \<longrightarrow> Reputation profile = 0) \<and>
           (snd (getUserBio root) \<noteq> None \<longrightarrow> BioText profile = '''') \<and>
           (snd (getFirstTenUserVisitorMessages root) \<noteq> None \<longrightarrow> VisitorMessages profile = [])"
proof -
  have zero: "err \<noteq> None \<longrightarrow> reputation = 0"
    using assms(3) by (cases err) (auto dest: getReputation_zero)
  let ?profile = "\<lparr>UserName = name,
      JoinDate = fst (getJoinDate root),
      TotalPosts = fst (getTotalPosts root),
      Reputation = reputation,
      BioText = fst (getUserBio root),
      VisitorMessages = fst (getFirstTenUserVisitorMessages root),
      Errors = failures results\<rparr>"
  have run: "GetUserProfilePage fc url = Return (?profile, None)"
    unfolding assms(4) by (rule GetUserProfilePage_returns [OF assms(1-3)])
  have count: "length (Errors ?profile) = length (filter (\<lambda>e. e \<noteq> None) results)"
    using length_failures [of results] by simp
  from run count zero show ?thesis
    by (intro exI [of _ ?profile])
      (simp add: getJoinDate_zero getTotalPosts_zero getUserBio_zero
        getFirstTenUserVisitorMessages_zero)
qed

text \<open>
  The lookup has a second way to panic: \<^verbatim>\<open>xmlpath.MustCompile\<close> on the path built from
  the fragment, when that path does not compile.
\<close>

lemma getReputation_panics_on_bad_path:
  assumes "GetHTMLRoot fc (searchURL forumUserID) = Inr root"
    and "Iter root postLinkPath = link # links"
    and "GetHTMLRoot fc (postURL (Node_String link)) = Inr root'"
    and "index (Split (Node_String link) CHR ''#'') 1 = Return anchor"
    and "\<not> Compiles fc (reputationPath anchor)"
  shows "getReputation fc forumUserID = Panic ''xmlpath: cannot compile path''"
  using assms by (simp add: getReputation_def Path_String_Cons MustCompile_def)

section \<open>The claims\<close>

text \<open>
  C4 (the reputation lookup returns a soft failure at every hop and never panics). The
  code panics at one hop: when the search page's first permalink has no \<open>#\<close> and the page
  it links to is fetched, \<^verbatim>\<open>strings.Split(href, "#")[1]\<close> indexes a one-element slice.
  Here the lookup runs on a forum whose permalink is \<open>showthread.php?p=7\<close>.
\<close>

theorem getReputation_panics_without_fragment:
  "getReputation (reputationClient ''showthread.php?p=7'' []) ''3'' =
     Panic ''runtime error: index out of range''"
  by (simp add: getReputation_def reputationClient_search reputationClient_post
      Path_String_def searchRoot_link leaf_def index_def)

text \<open>
  C2 (with a resolvable user name, each failing field adds one error and never prevents
  overall success). On the same forum the profile page has a user name, yet the call
  returns no profile: the panic of the reputation lookup goes through it.
\<close>

theorem GetUserProfilePage_panics_without_fragment:
  "GetUserProfilePage (reputationClient ''showthread.php?p=7'' []) (memberURL ''3'') =
     Panic ''runtime error: index out of range''"
proof -
  have "getReputation (reputationClient ''showthread.php?p=7'' [])
          (TrimPrefix (memberURL ''3'') memberURLPrefix) =
        Panic ''runtime error: index out of range''"
    unfolding member_id
    by (simp add: getReputation_def reputationClient_search reputationClient_post
        Path_String_def searchRoot_link leaf_def index_def)
  with reputationClient_member profileRoot_name show ?thesis
    by (rule GetUserProfilePage_panics)
qed

text \<open>
  C1. When the fetched document has no node at the user-name path, \<^verbatim>\<open>GetUserProfilePage\<close>
  returns an error (the user-name error, wrapped) beside the zero profile: no field of
  it is set and no error is collected in it. No other extractor has run.
\<close>

theorem GetUserProfilePage_without_username:
  assumes "GetHTMLRoot fc url = Inr root" and "Iter root userNamePath = []"
  shows "GetUserProfilePage fc url =
     Return (zeroUserProfile,
             Some (Wrap (New ''user name xmlpath did not return a result'')
                     ''url did not lead to a valid user page''))"
proof -
  have "zeroUserProfile\<lparr>UserName := ''''\<rparr> = zeroUserProfile"
    by (simp add: zeroUserProfile_def)
  with GetUserProfilePage_invalid [OF assms(1) getUserName_missing [OF assms(2)]]
  show ?thesis by simp
qed

theorem GetUserProfilePage_without_username_witness:
  "GetHTMLRoot (pageOnlyClient (leaf ''Please log in'')) (memberURL ''3'') =
     Inr (leaf ''Please log in'') \<and>
   Iter (leaf ''Please log in'') userNamePath = [] \<and>
   GetUserProfilePage (pageOnlyClient (leaf ''Please log in'')) (memberURL ''3'') =
     Return (zeroUserProfile,
             Some (Wrap (New ''user name xmlpath did not return a result'')
                     ''url did not lead to a valid user page''))"
proof -
  have fetch: "GetHTMLRoot (pageOnlyClient (leaf ''Please log in'')) (memberURL ''3'') =
      Inr (leaf ''Please log in'')"
    by (rule pageOnlyClient_member)
  have none: "Iter (leaf ''Please log in'') userNamePath = []"
    by (simp add: leaf_def)
  from fetch none GetUserProfilePage_without_username [OF fetch none] show ?thesis by simp
qed

text \<open>
  C5. A tick on which \<^verbatim>\<open>GetUserProfilePage\<close> returns an error (the fetch failed, or the
  page has no user name) ends the goroutine: whatever ticks come later, the poller is as
  that tick left it, so it makes no further extraction and no further callback; the
  failing tick itself invokes no callback.
\<close>

theorem poller_stops_on_failure:
  assumes "GetUserProfilePage fc (memberURL ident) = Return (profile, Some err)"
  shows "NewPostAlert ident (before @ fc # later) = NewPostAlert ident (before @ [fc]) \<and>
         extractions (NewPostAlert ident (before @ fc # later)) =
           extractions (NewPostAlert ident (before @ [fc])) \<and>
         callbacks (NewPostAlert ident (before @ fc # later)) =
           callbacks (NewPostAlert ident before) \<and>
         routine (NewPostAlert ident (before @ fc # later)) \<noteq> Running"
proof -
  let ?init = "\<lparr>lastPostCount = - 1, callbacks = 0, extractions = 0, routine = Running\<rparr>"
  let ?st = "ticks ident ?init before"
  have snoc: "ticks ident ?init (before @ [fc]) =
      (if routine ?st = Running then tick ident fc ?st else ?st)"
    by (rule ticks_snoc)
  have stopped: "routine (ticks ident ?init (before @ [fc])) \<noteq> Running"
    unfolding snoc by (simp add: tick_failed [OF assms])
  have same: "callbacks (ticks ident ?init (before @ [fc])) = callbacks ?st"
    unfolding snoc by (simp add: tick_failed [OF assms])
  have "ticks ident ?init (before @ fc # later) =
      ticks ident (ticks ident ?init (before @ [fc])) later"
    using ticks_append [of ident ?init "before @ [fc]" later] by simp
  also have "\<dots> = ticks ident ?init (before @ [fc])"
    by (rule ticks_stopped [OF stopped])
  finally have eq: "NewPostAlert ident (before @ fc # later) = NewPostAlert ident (before @ [fc])"
    by (simp add: NewPostAlert_def)
  from stopped same show ?thesis
    unfolding eq by (simp add: NewPostAlert_def)
qed

text \<open>The profile page served alone: every field but the two it holds fails softly.\<close>

lemma profileRoot_totalPosts:
  "getTotalPosts (profileRoot name posts) =
     (case Atoi (filter (\<lambda>c. c \<noteq> CHR '','') (TrimPrefix posts ''Total Posts: '')) of
        Inl err \<Rightarrow> (0, Some (New ''cannot convert posts to integer''))
      | Inr result \<Rightarrow> (result, None))"
proof -
  have "Iter (profileRoot name posts) totalPostsPath = leaf posts # []"
    using paths_distinct by (simp add: profileRoot_def)
  from getTotalPosts_found [OF this] show ?thesis by (simp add: leaf_def)
qed

lemma pageOnlyClient_profile:
  "GetUserProfilePage (pageOnlyClient (profileRoot name posts)) (memberURL ''3'') =
     Return (\<lparr>UserName = Trim name [CHR 0x0A, CHR '' ''],
              JoinDate = '''',
              TotalPosts = fst (getTotalPosts (profileRoot name posts)),
              Reputation = 0,
              BioText = '''',
              VisitorMessages = [],
              Errors = failures
                [Some (New ''join date xmlpath did not return a result''),
                 snd (getTotalPosts (profileRoot name posts)),
                 Some (Wrap (Transport ''connection refused'') ''cannot get user's posts''),
                 Some (New ''user bio xmlpath did not return a result''),
                 Some (New ''visitor messages xmlpath did not return a result'')]\<rparr>,
             None)"
proof -
  let ?root = "profileRoot name posts"
  have name: "getUserName ?root = (Trim name [CHR 0x0A, CHR '' ''], None)"
    by (simp add: getUserName_def Path_String_def profileRoot_def leaf_def)
  have rep: "getReputation (pageOnlyClient ?root) (TrimPrefix (memberURL ''3'') memberURLPrefix) =
      Return (0, Some (Wrap (Transport ''connection refused'') ''cannot get user's posts''))"
    unfolding member_id by (rule pageOnlyClient_reputation)
  have join: "getJoinDate ?root = ('''', Some (New ''join date xmlpath did not return a result''))"
    using paths_distinct
    by (simp add: getJoinDate_def Path_String_def profileRoot_def)
  have bio: "getUserBio ?root = ('''', Some (New ''user bio xmlpath did not return a result''))"
    using paths_distinct
    by (simp add: getUserBio_def Path_String_def profileRoot_def)
  have msgs: "getFirstTenUserVisitorMessages ?root =
      ([], Some (New ''visitor messages xmlpath did not return a result''))"
    using paths_distinct
    by (simp add: getFirstTenUserVisitorMessages_def Path_Exists_def profileRoot_def)
  show ?thesis
    unfolding GetUserProfilePage_returns [OF pageOnlyClient_member name rep]
    by (simp add: join bio msgs)
qed

lemma postsClient_observed:
  "observed ''3'' (postsClient posts) = Some (fst (getTotalPosts (profileRoot ''Kalcor'' posts)))"
  by (simp add: observed_def postsClient_def pageOnlyClient_profile)

lemma totalPosts_examples:
  "getTotalPosts (profileRoot name ''Total Posts: 10'') = (10, None)"
  "getTotalPosts (profileRoot name ''Total Posts: 12'') = (12, None)"
  "getTotalPosts (profileRoot name ''Total Posts: 15'') = (15, None)"
  "getTotalPosts (profileRoot name ''Total Posts: 9'') = (9, None)"
  "getTotalPosts (profileRoot name ''Total Posts: 5'') = (5, None)"
  by (simp_all add: profileRoot_totalPosts TrimPrefix_def HasPrefix_def Atoi_def isDigit_def
      digitVal_def)

lemma loginPage_fails:
  "GetUserProfilePage (pageOnlyClient (leaf ''Please log in'')) (memberURL ''3'') =
     Return (zeroUserProfile\<lparr>UserName := ''''\<rparr>,
             Some (Wrap (New ''user name xmlpath did not return a result'')
                     ''url did not lead to a valid user page''))"
proof -
  have "Iter (leaf ''Please log in'') userNamePath = []" by (simp add: leaf_def)
  from GetUserProfilePage_invalid [OF pageOnlyClient_member getUserName_missing [OF this]]
  show ?thesis .
qed

theorem poller_stops_on_failure_witness:
  "GetUserProfilePage (pageOnlyClient (leaf ''Please log in'')) (memberURL ''3'') =
     Return (zeroUserProfile\<lparr>UserName := ''''\<rparr>,
             Some (Wrap (New ''user name xmlpath did not return a result'')
                     ''url did not lead to a valid user page'')) \<and>
   NewPostAlert ''3''
     ([postsClient ''Total Posts: 10'', postsClient ''Total Posts: 12''] @
      pageOnlyClient (leaf ''Please log in'') # [postsClient ''Total Posts: 15'']) =
   NewPostAlert ''3''
     ([postsClient ''Total Posts: 10'', postsClient ''Total Posts: 12''] @
      [pageOnlyClient (leaf ''Please log in'')]) \<and>
   callbacks (NewPostAlert ''3''
     ([postsClient ''Total Posts: 10'', postsClient ''Total Posts: 12''] @
      pageOnlyClient (leaf ''Please log in'') # [postsClient ''Total Posts: 15''])) = 1 \<and>
   extractions (NewPostAlert ''3''
     ([postsClient ''Total Posts: 10'', postsClient ''Total Posts: 12''] @
      pageOnlyClient (leaf ''Please log in'') # [postsClient ''Total Posts: 15''])) = 3"
proof -
  have one: "callbacks (NewPostAlert ''3''
      [postsClient ''Total Posts: 10'', postsClient ''Total Posts: 12'']) = 1"
    by (simp add: NewPostAlert_def tick_observed [OF postsClient_observed] totalPosts_examples)
  have three: "extractions (NewPostAlert ''3''
      ([postsClient ''Total Posts: 10'', postsClient ''Total Posts: 12''] @
       [pageOnlyClient (leaf ''Please log in'')])) = 3"
    by (simp add: NewPostAlert_def tick_observed [OF postsClient_observed] totalPosts_examples
        tick_failed [OF loginPage_fails])
  note stops = poller_stops_on_failure [OF loginPage_fails,
      of "[postsClient ''Total Posts: 10'', postsClient ''Total Posts: 12'']"
         "[postsClient ''Total Posts: 15'']"]
  from stops have same: "NewPostAlert ''3''
      ([postsClient ''Total Posts: 10'', postsClient ''Total Posts: 12''] @
       pageOnlyClient (leaf ''Please log in'') # [postsClient ''Total Posts: 15'']) =
    NewPostAlert ''3''
      ([postsClient ''Total Posts: 10'', postsClient ''Total Posts: 12''] @
       [pageOnlyClient (leaf ''Please log in'')])"
    by (rule conjunct1)
  from stops one have calls: "callbacks (NewPostAlert ''3''
      ([postsClient ''Total Posts: 10'', postsClient ''Total Posts: 12''] @
       pageOnlyClient (leaf ''Please log in'') # [postsClient ''Total Posts: 15''])) = 1"
    by metis
  from stops three have fetches: "extractions (NewPostAlert ''3''
      ([postsClient ''Total Posts: 10'', postsClient ''Total Posts: 12''] @
       pageOnlyClient (leaf ''Please log in'') # [postsClient ''Total Posts: 15''])) = 3"
    by metis
  from loginPage_fails same calls fetches show ?thesis by (intro conjI)
qed

text \<open>
  The spec's data model gives \<^verbatim>\<open>TotalPosts\<close> as an integer that is at least 0. On such
  counts a tick never lowers the stored count, and a tick that observes less than the
  stored count changes neither the stored count nor the number of callbacks.
\<close>

lemma tick_keeps_baseline:
  assumes "observed ident fc = Some c" and "lastPostCount st \<noteq> - 1"
    and "c < lastPostCount st"
  shows "callbacks (tick ident fc st) = callbacks st \<and>
         lastPostCount (tick ident fc st) = lastPostCount st"
  using assms(2,3) by (simp add: tick_observed [OF assms(1)])

lemma tick_nondecreasing:
  assumes "\<forall>c. observed ident fc = Some c \<longrightarrow> 0 \<le> c"
    and "- 1 \<le> lastPostCount st"
  shows "lastPostCount st \<le> lastPostCount (tick ident fc st)"
proof (cases "observed ident fc")
  case None
  from tick_not_observed [OF this, of st] show ?thesis by simp
next
  case (Some c)
  with assms(1) have "0 \<le> c" by simp
  with assms(2) show ?thesis by (simp add: tick_observed [OF Some])
qed

lemma ticks_nondecreasing:
  assumes "\<forall>fc \<in> set fcs. \<forall>c. observed ident fc = Some c \<longrightarrow> 0 \<le> c"
    and "- 1 \<le> lastPostCount st"
  shows "lastPostCount st \<le> lastPostCount (ticks ident st fcs)"
  using assms
proof (induction fcs arbitrary: st)
  case Nil
  show ?case by simp
next
  case (Cons fc fcs)
  show ?case
  proof (cases "routine st = Running")
    case False
    then show ?thesis by simp
  next
    case True
    from Cons.prems(1) have fc: "\<forall>c. observed ident fc = Some c \<longrightarrow> 0 \<le> c"
      and rest: "\<forall>fc \<in> set fcs. \<forall>c. observed ident fc = Some c \<longrightarrow> 0 \<le> c"
      by simp_all
    note one = tick_nondecreasing [OF fc Cons.prems(2)]
    with Cons.prems(2) have "- 1 \<le> lastPostCount (tick ident fc st)" by simp
    from Cons.IH [OF rest this] one True show ?thesis by simp
  qed
qed

lemma afterTicks_add:
  "j \<le> k \<Longrightarrow>
   afterTicks ident fcs k = ticks ident (afterTicks ident fcs j) (drop j (take k fcs))"
proof -
  assume "j \<le> k"
  then have "take k fcs = take j fcs @ drop j (take k fcs)"
    by (metis append_take_drop_id min.absorb1 take_take)
  then have "ticks ident st (take k fcs) =
      ticks ident (ticks ident st (take j fcs)) (drop j (take k fcs))" for st
    using ticks_append by metis
  then show ?thesis by (simp add: afterTicks_def NewPostAlert_def)
qed

lemma afterTicks_Suc:
  assumes "k < length fcs"
  shows "afterTicks ident fcs (Suc k) =
           (if routine (afterTicks ident fcs k) = Running
            then tick ident (fcs ! k) (afterTicks ident fcs k) else afterTicks ident fcs k)"
proof -
  from assms have "drop k (take (Suc k) fcs) = [fcs ! k]"
    by (simp add: take_Suc_conv_app_nth)
  with afterTicks_add [of k "Suc k" ident fcs] show ?thesis by simp
qed

lemma afterTicks_lower_bound:
  assumes "\<forall>fc \<in> set fcs. \<forall>c. observed ident fc = Some c \<longrightarrow> 0 \<le> c"
  shows "- 1 \<le> lastPostCount (afterTicks ident fcs j)"
proof -
  have "set (take j fcs) \<subseteq> set fcs" by (rule set_take_subset)
  with assms have "\<forall>fc \<in> set (take j fcs). \<forall>c. observed ident fc = Some c \<longrightarrow> 0 \<le> c"
    by blast
  from ticks_nondecreasing [OF this,
      of "\<lparr>lastPostCount = - 1, callbacks = 0, extractions = 0, routine = Running\<rparr>"]
  show ?thesis by (simp add: afterTicks_def NewPostAlert_def)
qed

lemma afterTicks_examples:
  "afterTicks ''3'' [postsClient ''Total Posts: 10'', postsClient ''Total Posts: 10'',
      postsClient ''Total Posts: 12'', postsClient ''Total Posts: 12'',
      postsClient ''Total Posts: 15''] 2 =
     \<lparr>lastPostCount = 10, callbacks = 0, extractions = 2, routine = Running\<rparr>"
  "afterTicks ''3'' [postsClient ''Total Posts: 10'', postsClient ''Total Posts: 12'',
      postsClient ''Total Posts: 9'', postsClient ''Total Posts: 10''] 2 =
     \<lparr>lastPostCount = 12, callbacks = 1, extractions = 2, routine = Running\<rparr>"
  "afterTicks ''3'' [postsClient ''Total Posts: 10'', postsClient ''Total Posts: 12'',
      postsClient ''Total Posts: 9'', postsClient ''Total Posts: 10''] 1 =
     \<lparr>lastPostCount = 10, callbacks = 0, extractions = 1, routine = Running\<rparr>"
  by (simp_all add: afterTicks_def NewPostAlert_def tick_observed [OF postsClient_observed]
      totalPosts_examples)

text \<open>
  C3. Let every tick succeed, with post counts that are at least 0 as the data model has
  them. The first tick invokes no callback and stores the observed count. On every later
  tick the callback is invoked exactly once, and the observed count stored, when the
  observed count is greater than the stored one; otherwise no callback is invoked and the
  stored count stays. The counts 10, 10, 12, 12, 15 give two callbacks.
\<close>

theorem poller_fires_on_increase:
  assumes "map (observed ident) fcs = map Some counts"
    and "\<forall>c \<in> set counts. 0 \<le> c"
  shows "(fcs \<noteq> [] \<longrightarrow>
            callbacks (afterTicks ident fcs 1) = 0 \<and>
            lastPostCount (afterTicks ident fcs 1) = counts ! 0) \<and>
         (\<forall>k. 0 < k \<and> k < length fcs \<longrightarrow>
            (if lastPostCount (afterTicks ident fcs k) < counts ! k
             then callbacks (afterTicks ident fcs (Suc k)) =
                    callbacks (afterTicks ident fcs k) + 1 \<and>
                  lastPostCount (afterTicks ident fcs (Suc k)) = counts ! k
             else callbacks (afterTicks ident fcs (Suc k)) =
                    callbacks (afterTicks ident fcs k) \<and>
                  lastPostCount (afterTicks ident fcs (Suc k)) =
                    lastPostCount (afterTicks ident fcs k))) \<and>
         (counts = [10, 10, 12, 12, 15] \<longrightarrow> callbacks (NewPostAlert ident fcs) = 2)"
proof (intro conjI impI allI)
  assume ne: "fcs \<noteq> []"
  then have k: "0 < length fcs" by simp
  have "afterTicks ident fcs 1 = tick ident (fcs ! 0) (afterTicks ident fcs 0)"
    using NewPostAlert_Suc [OF assms(1) k] by (simp add: afterTicks_def)
  then have first: "afterTicks ident fcs 1 =
      \<lparr>lastPostCount = counts ! 0, callbacks = 0, extractions = 1, routine = Running\<rparr>"
    by (simp add: afterTicks_def NewPostAlert_def
        tick_observed [OF observed_nth [OF assms(1) k]])
  show "callbacks (afterTicks ident fcs 1) = 0" unfolding first by simp
  show "lastPostCount (afterTicks ident fcs 1) = counts ! 0" unfolding first by simp
next
  fix k
  assume h: "0 < k \<and> k < length fcs"
  then have k: "k < length fcs" by simp
  from h have "lastPostCount (afterTicks ident fcs k) \<in> set counts"
    unfolding afterTicks_def using NewPostAlert_lastPostCount_mem [OF assms(1), of k] by simp
  with assms(2) have "0 \<le> lastPostCount (afterTicks ident fcs k)" by blast
  then have held: "lastPostCount (afterTicks ident fcs k) \<noteq> - 1" by simp
  have step: "afterTicks ident fcs (Suc k) = tick ident (fcs ! k) (afterTicks ident fcs k)"
    using NewPostAlert_Suc [OF assms(1) k] by (simp add: afterTicks_def)
  show "if lastPostCount (afterTicks ident fcs k) < counts ! k
        then callbacks (afterTicks ident fcs (Suc k)) = callbacks (afterTicks ident fcs k) + 1 \<and>
             lastPostCount (afterTicks ident fcs (Suc k)) = counts ! k
        else callbacks (afterTicks ident fcs (Suc k)) = callbacks (afterTicks ident fcs k) \<and>
             lastPostCount (afterTicks ident fcs (Suc k)) =
               lastPostCount (afterTicks ident fcs k)"
    unfolding step using held by (simp add: tick_observed [OF observed_nth [OF assms(1) k]])
next
  assume counts: "counts = [10, 10, 12, 12, 15]"
  from assms(1) have "length fcs = 5"
    unfolding counts using length_map [of "observed ident" fcs] by simp
  then obtain a b c d e where fcs: "fcs = [a, b, c, d, e]"
    by (auto simp: length_Suc_conv numeral_eq_Suc)
  from assms(1) [unfolded counts fcs] have obs:
    "observed ident a = Some 10" "observed ident b = Some 10" "observed ident c = Some 12"
    "observed ident d = Some 12" "observed ident e = Some 15"
    by simp_all
  show "callbacks (NewPostAlert ident fcs) = 2"
    unfolding fcs NewPostAlert_def
    by (simp add: tick_observed [OF obs(1)] tick_observed [OF obs(2)] tick_observed [OF obs(3)]
        tick_observed [OF obs(4)] tick_observed [OF obs(5)])
qed

theorem poller_fires_on_increase_witness:
  "map (observed ''3'')
     [postsClient ''Total Posts: 10'', postsClient ''Total Posts: 10'',
      postsClient ''Total Posts: 12'', postsClient ''Total Posts: 12'',
      postsClient ''Total Posts: 15''] = map Some [10, 10, 12, 12, 15] \<and>
   callbacks (afterTicks ''3''
     [postsClient ''Total Posts: 10'', postsClient ''Total Posts: 10'',
      postsClient ''Total Posts: 12'', postsClient ''Total Posts: 12'',
      postsClient ''Total Posts: 15''] 1) = 0 \<and>
   lastPostCount (afterTicks ''3''
     [postsClient ''Total Posts: 10'', postsClient ''Total Posts: 10'',
      postsClient ''Total Posts: 12'', postsClient ''Total Posts: 12'',
      postsClient ''Total Posts: 15''] 1) = 10 \<and>
   callbacks (afterTicks ''3''
     [postsClient ''Total Posts: 10'', postsClient ''Total Posts: 10'',
      postsClient ''Total Posts: 12'', postsClient ''Total Posts: 12'',
      postsClient ''Total Posts: 15''] 3) = 1 \<and>
   lastPostCount (afterTicks ''3''
     [postsClient ''Total Posts: 10'', postsClient ''Total Posts: 10'',
      postsClient ''Total Posts: 12'', postsClient ''Total Posts: 12'',
      postsClient ''Total Posts: 15''] 3) = 12 \<and>
   callbacks (NewPostAlert ''3''
     [postsClient ''Total Posts: 10'', postsClient ''Total Posts: 10'',
      postsClient ''Total Posts: 12'', postsClient ''Total Posts: 12'',
      postsClient ''Total Posts: 15'']) = 2"
proof -
  let ?F = "[postsClient ''Total Posts: 10'', postsClient ''Total Posts: 10'',
      postsClient ''Total Posts: 12'', postsClient ''Total Posts: 12'',
      postsClient ''Total Posts: 15'']"
  have F: "map (observed ''3'') ?F = map Some [10, 10, 12, 12, 15]"
    by (simp add: postsClient_observed totalPosts_examples)
  have nonneg: "\<forall>c \<in> set [10, 10, 12, 12, 15 :: int]. 0 \<le> c" by simp
  note atF = poller_fires_on_increase [OF F nonneg]
  from atF have first: "callbacks (afterTicks ''3'' ?F 1) = 0 \<and>
      lastPostCount (afterTicks ''3'' ?F 1) = 10"
    by simp
  have pre: "0 < (2::nat) \<and> 2 < length ?F" by simp
  have less: "lastPostCount (afterTicks ''3'' ?F 2) < [10, 10, 12, 12, 15] ! 2"
    by (simp add: afterTicks_examples)
  from atF have "\<forall>k. 0 < k \<and> k < length ?F \<longrightarrow>
      (if lastPostCount (afterTicks ''3'' ?F k) < [10, 10, 12, 12, 15] ! k
       then callbacks (afterTicks ''3'' ?F (Suc k)) = callbacks (afterTicks ''3'' ?F k) + 1 \<and>
            lastPostCount (afterTicks ''3'' ?F (Suc k)) = [10, 10, 12, 12, 15] ! k
       else callbacks (afterTicks ''3'' ?F (Suc k)) = callbacks (afterTicks ''3'' ?F k) \<and>
            lastPostCount (afterTicks ''3'' ?F (Suc k)) = lastPostCount (afterTicks ''3'' ?F k))"
    by blast
  from this [rule_format, OF pre] less
  have "callbacks (afterTicks ''3'' ?F (Suc 2)) = callbacks (afterTicks ''3'' ?F 2) + 1 \<and>
      lastPostCount (afterTicks ''3'' ?F (Suc 2)) = [10, 10, 12, 12, 15] ! 2"
    by (simp only: if_True)
  then have third: "callbacks (afterTicks ''3'' ?F 3) = 1 \<and>
      lastPostCount (afterTicks ''3'' ?F 3) = 12"
    by (simp add: afterTicks_examples)
  from atF have all: "callbacks (NewPostAlert ''3'' ?F) = 2" by simp
  from F first third all show ?thesis by (intro conjI) simp_all
qed

text \<open>
  C6. Let the post counts the ticks observe be at least 0, as the data model has them
  (ticks may also fail). On every tick on which the observed count is less than the
  stored one, no callback is invoked and the stored count stays. Consequently the stored
  count never drops from one tick to a later one; this holds from the start, where it
  is the marker \<open>-1\<close>, and so across all ticks after the initialisation.
\<close>

theorem baseline_never_lowered:
  assumes "\<forall>fc \<in> set fcs. \<forall>c. observed ident fc = Some c \<longrightarrow> 0 \<le> c"
  shows "(\<forall>k c. k < length fcs \<and> observed ident (fcs ! k) = Some c \<and>
              c < lastPostCount (afterTicks ident fcs k) \<longrightarrow>
            callbacks (afterTicks ident fcs (Suc k)) = callbacks (afterTicks ident fcs k) \<and>
            lastPostCount (afterTicks ident fcs (Suc k)) =
              lastPostCount (afterTicks ident fcs k)) \<and>
         (\<forall>j k. j \<le> k \<and> k \<le> length fcs \<longrightarrow>
            lastPostCount (afterTicks ident fcs j) \<le> lastPostCount (afterTicks ident fcs k))"
proof (intro conjI allI impI)
  fix k c
  assume h: "k < length fcs \<and> observed ident (fcs ! k) = Some c \<and>
      c < lastPostCount (afterTicks ident fcs k)"
  then have k: "k < length fcs" and obs: "observed ident (fcs ! k) = Some c"
    and less: "c < lastPostCount (afterTicks ident fcs k)" by simp_all
  from k have "fcs ! k \<in> set fcs" by simp
  with assms obs have "0 \<le> c" by blast
  with less have held: "lastPostCount (afterTicks ident fcs k) \<noteq> - 1" by simp
  note keeps = tick_keeps_baseline [OF obs held less]
  note step = afterTicks_Suc [OF k, of ident]
  from keeps
  show "callbacks (afterTicks ident fcs (Suc k)) = callbacks (afterTicks ident fcs k)"
    unfolding step by simp
  from keeps
  show "lastPostCount (afterTicks ident fcs (Suc k)) = lastPostCount (afterTicks ident fcs k)"
    unfolding step by simp
next
  fix j k
  assume h: "j \<le> k \<and> k \<le> length fcs"
  have "set (drop j (take k fcs)) \<subseteq> set fcs"
    using set_drop_subset set_take_subset by fast
  with assms
  have rest: "\<forall>fc \<in> set (drop j (take k fcs)). \<forall>c. observed ident fc = Some c \<longrightarrow> 0 \<le> c"
    by blast
  from h have "afterTicks ident fcs k =
      ticks ident (afterTicks ident fcs j) (drop j (take k fcs))"
    using afterTicks_add by simp
  with ticks_nondecreasing [OF rest afterTicks_lower_bound [OF assms]]
  show "lastPostCount (afterTicks ident fcs j) \<le> lastPostCount (afterTicks ident fcs k)"
    by simp
qed

theorem baseline_never_lowered_witness:
  "map (observed ''3'')
     [postsClient ''Total Posts: 10'', postsClient ''Total Posts: 12'',
      postsClient ''Total Posts: 9'', postsClient ''Total Posts: 10''] =
     [Some 10, Some 12, Some 9, Some 10] \<and>
   observed ''3'' (postsClient ''Total Posts: 9'') = Some 9 \<and>
   lastPostCount (afterTicks ''3''
      [postsClient ''Total Posts: 10'', postsClient ''Total Posts: 12'',
       postsClient ''Total Posts: 9'', postsClient ''Total Posts: 10''] 2) = 12 \<and>
   callbacks (afterTicks ''3''
      [postsClient ''Total Posts: 10'', postsClient ''Total Posts: 12'',
       postsClient ''Total Posts: 9'', postsClient ''Total Posts: 10''] 3) = 1 \<and>
   lastPostCount (afterTicks ''3''
      [postsClient ''Total Posts: 10'', postsClient ''Total Posts: 12'',
       postsClient ''Total Posts: 9'', postsClient ''Total Posts: 10''] 3) = 12 \<and>
   lastPostCount (afterTicks ''3''
      [postsClient ''Total Posts: 10'', postsClient ''Total Posts: 12'',
       postsClient ''Total Posts: 9'', postsClient ''Total Posts: 10''] 1) \<le>
   lastPostCount (afterTicks ''3''
      [postsClient ''Total Posts: 10'', postsClient ''Total Posts: 12'',
       postsClient ''Total Posts: 9'', postsClient ''Total Posts: 10''] 3)"
proof -
  let ?G = "[postsClient ''Total Posts: 10'', postsClient ''Total Posts: 12'',
       postsClient ''Total Posts: 9'', postsClient ''Total Posts: 10'']"
  have seen: "map (observed ''3'') ?G = [Some 10, Some 12, Some 9, Some 10]"
    by (simp add: postsClient_observed totalPosts_examples)
  have G: "\<forall>fc \<in> set ?G. \<forall>c. observed ''3'' fc = Some c \<longrightarrow> 0 \<le> c"
    by (simp add: postsClient_observed totalPosts_examples)
  have nine: "observed ''3'' (postsClient ''Total Posts: 9'') = Some 9"
    by (simp add: postsClient_observed totalPosts_examples)
  have two: "lastPostCount (afterTicks ''3'' ?G 2) = 12" "callbacks (afterTicks ''3'' ?G 2) = 1"
    by (simp_all add: afterTicks_examples)
  note atG = baseline_never_lowered [OF G]
  have pre: "2 < length ?G \<and> observed ''3'' (?G ! 2) = Some 9 \<and>
      9 < lastPostCount (afterTicks ''3'' ?G 2)"
    using nine two by simp
  from atG have "\<forall>k c. k < length ?G \<and> observed ''3'' (?G ! k) = Some c \<and>
        c < lastPostCount (afterTicks ''3'' ?G k) \<longrightarrow>
      callbacks (afterTicks ''3'' ?G (Suc k)) = callbacks (afterTicks ''3'' ?G k) \<and>
      lastPostCount (afterTicks ''3'' ?G (Suc k)) = lastPostCount (afterTicks ''3'' ?G k)"
    by (rule conjunct1)
  from this [rule_format, OF pre] two
  have three: "callbacks (afterTicks ''3'' ?G 3) = 1 \<and> lastPostCount (afterTicks ''3'' ?G 3) = 12"
    by simp
  have pre': "(1::nat) \<le> 3 \<and> 3 \<le> length ?G" by simp
  from atG have "\<forall>j k. j \<le> k \<and> k \<le> length ?G \<longrightarrow>
      lastPostCount (afterTicks ''3'' ?G j) \<le> lastPostCount (afterTicks ''3'' ?G k)"
    by (rule conjunct2)
  from this [rule_format, OF pre']
  have mono: "lastPostCount (afterTicks ''3'' ?G 1) \<le> lastPostCount (afterTicks ''3'' ?G 3)" .
  from seen nine two(1) three mono show ?thesis by (intro conjI) simp_all
qed

text \<open>
  C7, amended. The \<^verbatim>\<open>UserName\<close> of a profile returned without error is the string value
  of the first node at the user-name path, with newlines and spaces removed at both
  ends. It is non-empty exactly when that string has some other character: the code
  never tests the trimmed name.
\<close>

theorem UserName_is_trimmed_text:
  assumes "GetUserProfilePage fc url = Return (profile, None)"
  shows "\<exists>root n ns.
           GetHTMLRoot fc url = Inr root \<and> Iter root userNamePath = n # ns \<and>
           UserName profile = Trim (Node_String n) [CHR 0x0A, CHR '' ''] \<and>
           (UserName profile \<noteq> '''' \<longleftrightarrow> \<not> set (Node_String n) \<subseteq> {CHR 0x0A, CHR '' ''})"
proof -
  from assms obtain root name reputation err where
    root: "GetHTMLRoot fc url = Inr root" and name: "getUserName root = (name, None)" and
    rep: "getReputation fc (TrimPrefix url memberURLPrefix) = Return (reputation, err)"
    by (rule GetUserProfilePage_success)
  from GetUserProfilePage_returns [OF root name rep] assms
  have profile: "UserName profile = name" by auto
  from getUserName_None [OF name] obtain n ns where
    n: "Iter root userNamePath = n # ns" and
    trim: "name = Trim (Node_String n) [CHR 0x0A, CHR '' '']"
    by blast
  have empty: "name \<noteq> '''' \<longleftrightarrow> \<not> set (Node_String n) \<subseteq> {CHR 0x0A, CHR '' ''}"
    unfolding trim using Trim_eq_Nil [of "Node_String n" "[CHR 0x0A, CHR '' '']"] by simp
  show ?thesis
  proof (intro exI conjI)
    show "GetHTMLRoot fc url = Inr root" by (rule root)
    show "Iter root userNamePath = n # ns" by (rule n)
    show "UserName profile = Trim (Node_String n) [CHR 0x0A, CHR '' '']"
      using profile trim by simp
    show "UserName profile \<noteq> '''' \<longleftrightarrow> \<not> set (Node_String n) \<subseteq> {CHR 0x0A, CHR '' ''}"
      unfolding profile by (rule empty)
  qed
qed

text \<open>
  The claim as stated fails on a page whose user-name node holds a single space: the
  call succeeds with the empty \<^verbatim>\<open>UserName\<close>.
\<close>

theorem UserName_is_trimmed_text_counterexample:
  "GetUserProfilePage (pageOnlyClient (profileRoot '' '' ''Total Posts: 5'')) (memberURL ''3'') =
     Return (\<lparr>UserName = '''', JoinDate = '''', TotalPosts = 5, Reputation = 0, BioText = '''',
              VisitorMessages = [],
              Errors =
                [New ''join date xmlpath did not return a result'',
                 Wrap (Transport ''connection refused'') ''cannot get user's posts'',
                 New ''user bio xmlpath did not return a result'',
                 New ''visitor messages xmlpath did not return a result'']\<rparr>,
             None)"
  by (simp add: pageOnlyClient_profile totalPosts_examples Trim_def)

theorem UserName_is_trimmed_text_witness:
  "GetUserProfilePage (pageOnlyClient (profileRoot '' Kalcor '' ''Total Posts: 5''))
     (memberURL ''3'') =
     Return (\<lparr>UserName = ''Kalcor'', JoinDate = '''', TotalPosts = 5, Reputation = 0,
              BioText = '''', VisitorMessages = [],
              Errors =
                [New ''join date xmlpath did not return a result'',
                 Wrap (Transport ''connection refused'') ''cannot get user's posts'',
                 New ''user bio xmlpath did not return a result'',
                 New ''visitor messages xmlpath did not return a result'']\<rparr>,
             None) \<and>
   (\<exists>n ns. Iter (profileRoot '' Kalcor '' ''Total Posts: 5'') userNamePath = n # ns \<and>
      ''Kalcor'' = Trim (Node_String n) [CHR 0x0A, CHR '' ''] \<and>
      \<not> set (Node_String n) \<subseteq> {CHR 0x0A, CHR '' ''})"
proof -
  let ?profile = "\<lparr>UserName = ''Kalcor'', JoinDate = '''', TotalPosts = 5, Reputation = 0,
      BioText = '''', VisitorMessages = [],
      Errors =
        [New ''join date xmlpath did not return a result'',
         Wrap (Transport ''connection refused'') ''cannot get user's posts'',
         New ''user bio xmlpath did not return a result'',
         New ''visitor messages xmlpath did not return a result'']\<rparr>"
  have run: "GetUserProfilePage (pageOnlyClient (profileRoot '' Kalcor '' ''Total Posts: 5''))
      (memberURL ''3'') = Return (?profile, None)"
    by (simp add: pageOnlyClient_profile totalPosts_examples Trim_def)
  from UserName_is_trimmed_text [OF run] obtain root n ns where
    r: "GetHTMLRoot (pageOnlyClient (profileRoot '' Kalcor '' ''Total Posts: 5''))
          (memberURL ''3'') = Inr root" and
    i: "Iter root userNamePath = n # ns" and
    t: "UserName ?profile = Trim (Node_String n) [CHR 0x0A, CHR '' '']" and
    e: "UserName ?profile \<noteq> '''' \<longleftrightarrow> \<not> set (Node_String n) \<subseteq> {CHR 0x0A, CHR '' ''}"
    by blast
  have u: "UserName ?profile = ''Kalcor''" by simp
  from r have root: "root = profileRoot '' Kalcor '' ''Total Posts: 5''"
    by (simp add: pageOnlyClient_member)
  have a: "Iter (profileRoot '' Kalcor '' ''Total Posts: 5'') userNamePath = n # ns"
    using i unfolding root .
  have b: "''Kalcor'' = Trim (Node_String n) [CHR 0x0A, CHR '' '']"
    using t unfolding u .
  have "''Kalcor'' \<noteq> ''''" by simp
  with e have c: "\<not> set (Node_String n) \<subseteq> {CHR 0x0A, CHR '' ''}"
    unfolding u by (rule iffD1)
  from a b c
  have "\<exists>n ns. Iter (profileRoot '' Kalcor '' ''Total Posts: 5'') userNamePath = n # ns \<and>
      ''Kalcor'' = Trim (Node_String n) [CHR 0x0A, CHR '' ''] \<and>
      \<not> set (Node_String n) \<subseteq> {CHR 0x0A, CHR '' ''}"
    by (intro exI conjI)
  with run show ?thesis by (rule conjI)
qed

text \<open>
  C8. When the reputation query on the discussion page selects more than one node, the
  lookup reads the last of them: the result is what Atoi makes of the last node's
  string value, its label and its commas removed.
\<close>

theorem reputation_from_last_match:
  assumes "GetHTMLRoot fc (searchURL forumUserID) = Inr root"
    and "Iter root postLinkPath = link # links"
    and "GetHTMLRoot fc (postURL (Node_String link)) = Inr root'"
    and "index (Split (Node_String link) CHR ''#'') 1 = Return anchor"
    and "Compiles fc (reputationPath anchor)"
    and "Iter root' (reputationPath anchor) = found"
    and "1 < length found"
  shows "getReputation fc forumUserID =
     (case Atoi (filter (\<lambda>c. c \<noteq> CHR '','')
             (TrimPrefix (Node_String (last found)) ''Reputation: '')) of
        Inl err \<Rightarrow> Return (0, Some (Wrap err ''cannot convert reputation to integer''))
      | Inr result \<Rightarrow> Return (result, None))"
proof -
  from assms(7) have "found \<noteq> []" by auto
  then have "lastString found '''' = Node_String (last found)"
    by (simp add: lastString_last)
  with getReputation_reached [OF assms(1-6)] show ?thesis by simp
qed

lemma reputationClient_compiles: "Compiles (reputationClient href found) path"
  by (simp add: reputationClient_def)

lemma leaf_String: "Node_String (leaf s) = s"
  by (simp add: leaf_def)

theorem reputation_from_last_match_witness:
  "Iter (discussionRoot [leaf ''Reputation: 10'', leaf ''Reputation: 25''])
     (reputationPath ''post7'') = [leaf ''Reputation: 10'', leaf ''Reputation: 25''] \<and>
   1 < length [leaf ''Reputation: 10'', leaf ''Reputation: 25''] \<and>
   getReputation
     (reputationClient ''showthread.php?p=7#post7''
        [leaf ''Reputation: 10'', leaf ''Reputation: 25'']) ''3'' =
   Return (25, None)"
proof -
  let ?found = "[leaf ''Reputation: 10'', leaf ''Reputation: 25'']"
  let ?fc = "reputationClient ''showthread.php?p=7#post7'' ?found"
  have link: "Iter (searchRoot ''showthread.php?p=7#post7'') postLinkPath =
      leaf ''showthread.php?p=7#post7'' # []"
    by (rule searchRoot_link)
  have page: "GetHTMLRoot ?fc (postURL (Node_String (leaf ''showthread.php?p=7#post7''))) =
      Inr (discussionRoot ?found)"
    unfolding leaf_String by (rule reputationClient_post)
  have anchor: "index (Split (Node_String (leaf ''showthread.php?p=7#post7'')) CHR ''#'') 1 =
      Return ''post7''"
    unfolding leaf_String by (rule Split_fragment)
  have many: "1 < length ?found" by simp
  from reputation_from_last_match [OF reputationClient_search link page anchor
      reputationClient_compiles discussionRoot_found many]
  have "getReputation ?fc ''3'' = Return (25, None)"
    by (simp add: leaf_def TrimPrefix_def HasPrefix_def Atoi_def isDigit_def digitVal_def)
  with discussionRoot_found [of ?found] many show ?thesis by (intro conjI)
qed

text \<open>
  C10. The messages returned are those of the well-formed blocks, in the order of the
  blocks; a block without author or without body adds nothing, neither a message nor an
  error. The extractor reports an error exactly when the message list selects no block
  at all, and then returns no message. In the profile, \<^verbatim>\<open>Errors\<close> holds the failures of
  the four fields before, followed by that one error or by nothing.
\<close>

theorem visitor_messages_skip_malformed:
  "(Iter root messageListPath \<noteq> [] \<longrightarrow>
      getFirstTenUserVisitorMessages root =
        (map messageOf (filter wellFormed (Iter root messageListPath)), None)) \<and>
   (Iter root messageListPath = [] \<longrightarrow>
      getFirstTenUserVisitorMessages root =
        ([], Some (New ''visitor messages xmlpath did not return a result''))) \<and>
   (GetHTMLRoot fc url = Inr root \<and> GetUserProfilePage fc url = Return (profile, None) \<and>
    getReputation fc (TrimPrefix url memberURLPrefix) = Return (reputation, err) \<longrightarrow>
      VisitorMessages profile = map messageOf (filter wellFormed (Iter root messageListPath)) \<and>
      Errors profile =
        failures [snd (getJoinDate root), snd (getTotalPosts root), err, snd (getUserBio root)] @
        (if Iter root messageListPath = []
         then [New ''visitor messages xmlpath did not return a result''] else []))"
proof (intro conjI impI)
  assume "Iter root messageListPath \<noteq> []"
  then show "getFirstTenUserVisitorMessages root =
      (map messageOf (filter wellFormed (Iter root messageListPath)), None)"
    by (simp add: getFirstTenUserVisitorMessages_eq)
next
  assume "Iter root messageListPath = []"
  then show "getFirstTenUserVisitorMessages root =
      ([], Some (New ''visitor messages xmlpath did not return a result''))"
    by (simp add: getFirstTenUserVisitorMessages_eq)
next
  assume h: "GetHTMLRoot fc url = Inr root \<and> GetUserProfilePage fc url = Return (profile, None) \<and>
    getReputation fc (TrimPrefix url memberURLPrefix) = Return (reputation, err)"
  then have root: "GetHTMLRoot fc url = Inr root"
    and run: "GetUserProfilePage fc url = Return (profile, None)"
    and rep: "getReputation fc (TrimPrefix url memberURLPrefix) = Return (reputation, err)"
    by simp_all
  from run obtain root' name reputation' err' where
    root': "GetHTMLRoot fc url = Inr root'" and name: "getUserName root' = (name, None)"
    by (rule GetUserProfilePage_success)
  from root root' have "root' = root" by simp
  with name have name: "getUserName root = (name, None)" by simp
  note returned = GetUserProfilePage_returns [OF root name rep]
  from returned run show "VisitorMessages profile =
      map messageOf (filter wellFormed (Iter root messageListPath))"
    by (auto simp: getFirstTenUserVisitorMessages_eq)
  have "failures [a, b, c, d, e] = failures [a, b, c, d] @ failures [e]" for a b c d e
    using failures_append [of "[a, b, c, d]" "[e]"] by simp
  with returned run show "Errors profile =
      failures [snd (getJoinDate root), snd (getTotalPosts root), err, snd (getUserBio root)] @
      (if Iter root messageListPath = []
       then [New ''visitor messages xmlpath did not return a result''] else [])"
    by (auto simp: getFirstTenUserVisitorMessages_eq)
qed

lemma messagesRoot_profile:
  "GetUserProfilePage (pageOnlyClient (messagesRoot blocks)) (memberURL ''3'') =
     Return (\<lparr>UserName = ''Kalcor'',
              JoinDate = '''',
              TotalPosts = 0,
              Reputation = 0,
              BioText = '''',
              VisitorMessages = fst (getFirstTenUserVisitorMessages (messagesRoot blocks)),
              Errors = failures
                [Some (New ''join date xmlpath did not return a result''),
                 Some (New ''total posts xmlpath did not return a result''),
                 Some (Wrap (Transport ''connection refused'') ''cannot get user's posts''),
                 Some (New ''user bio xmlpath did not return a result''),
                 snd (getFirstTenUserVisitorMessages (messagesRoot blocks))]\<rparr>,
             None)"
proof -
  let ?root = "messagesRoot blocks"
  have name: "getUserName ?root = (''Kalcor'', None)"
    by (simp add: getUserName_def Path_String_def messagesRoot_def leaf_def Trim_def)
  have rep: "getReputation (pageOnlyClient ?root) (TrimPrefix (memberURL ''3'') memberURLPrefix) =
      Return (0, Some (Wrap (Transport ''connection refused'') ''cannot get user's posts''))"
    unfolding member_id by (rule pageOnlyClient_reputation)
  have join: "getJoinDate ?root = ('''', Some (New ''join date xmlpath did not return a result''))"
    using paths_distinct
    by (simp add: getJoinDate_def Path_String_def messagesRoot_def)
  have posts: "getTotalPosts ?root =
      (0, Some (New ''total posts xmlpath did not return a result''))"
    using paths_distinct
    by (simp add: getTotalPosts_def Path_String_def messagesRoot_def)
  have bio: "getUserBio ?root = ('''', Some (New ''user bio xmlpath did not return a result''))"
    using paths_distinct
    by (simp add: getUserBio_def Path_String_def messagesRoot_def)
  show ?thesis
    unfolding GetUserProfilePage_returns [OF pageOnlyClient_member name rep]
    by (simp add: join posts bio)
qed

lemma messagesRoot_blocks: "Iter (messagesRoot blocks) messageListPath = blocks"
  using paths_distinct by (simp add: messagesRoot_def)

lemma messageBlock_wellFormed:
  "wellFormed (messageBlock user body) \<longleftrightarrow> user \<noteq> None \<and> body \<noteq> None"
  using paths_distinct
  by (cases user; cases body) (simp_all add: wellFormed_def messageBlock_def)

lemma messageBlock_messageOf:
  "messageOf (messageBlock (Some user) (Some body)) = VisitorMessage user body"
  using paths_distinct by (simp add: messageOf_def messageBlock_def leaf_def)

theorem visitor_messages_skip_malformed_witness:
  "Iter (messagesRoot
       [messageBlock (Some ''Alice'') (Some ''Welcome back''),
        messageBlock None (Some ''Who wrote this?''),
        messageBlock (Some ''Bob'') (Some ''Nice script''),
        messageBlock (Some ''Carol'') (Some ''Thanks'')]) messageListPath \<noteq> [] \<and>
   getFirstTenUserVisitorMessages
     (messagesRoot
       [messageBlock (Some ''Alice'') (Some ''Welcome back''),
        messageBlock None (Some ''Who wrote this?''),
        messageBlock (Some ''Bob'') (Some ''Nice script''),
        messageBlock (Some ''Carol'') (Some ''Thanks'')]) =
     ([VisitorMessage ''Alice'' ''Welcome back'', VisitorMessage ''Bob'' ''Nice script'',
       VisitorMessage ''Carol'' ''Thanks''], None) \<and>
   getFirstTenUserVisitorMessages (messagesRoot []) =
     ([], Some (New ''visitor messages xmlpath did not return a result'')) \<and>
   GetUserProfilePage
     (pageOnlyClient (messagesRoot
       [messageBlock (Some ''Alice'') (Some ''Welcome back''),
        messageBlock None (Some ''Who wrote this?''),
        messageBlock (Some ''Bob'') (Some ''Nice script''),
        messageBlock (Some ''Carol'') (Some ''Thanks'')])) (memberURL ''3'') =
     Return (\<lparr>UserName = ''Kalcor'', JoinDate = '''', TotalPosts = 0, Reputation = 0,
              BioText = '''',
              VisitorMessages =
                [VisitorMessage ''Alice'' ''Welcome back'', VisitorMessage ''Bob'' ''Nice script'',
                 VisitorMessage ''Carol'' ''Thanks''],
              Errors =
                [New ''join date xmlpath did not return a result'',
                 New ''total posts xmlpath did not return a result'',
                 Wrap (Transport ''connection refused'') ''cannot get user's posts'',
                 New ''user bio xmlpath did not return a result'']\<rparr>,
             None)"
proof -
  let ?blocks = "[messageBlock (Some ''Alice'') (Some ''Welcome back''),
        messageBlock None (Some ''Who wrote this?''),
        messageBlock (Some ''Bob'') (Some ''Nice script''),
        messageBlock (Some ''Carol'') (Some ''Thanks'')]"
  have present: "Iter (messagesRoot ?blocks) messageListPath \<noteq> []"
    by (simp add: messagesRoot_blocks)
  have absent: "Iter (messagesRoot []) messageListPath = []"
    by (simp add: messagesRoot_blocks)
  from visitor_messages_skip_malformed [of "messagesRoot ?blocks"] present
  have three: "getFirstTenUserVisitorMessages (messagesRoot ?blocks) =
      ([VisitorMessage ''Alice'' ''Welcome back'', VisitorMessage ''Bob'' ''Nice script'',
        VisitorMessage ''Carol'' ''Thanks''], None)"
    by (simp add: messagesRoot_blocks messageBlock_wellFormed messageBlock_messageOf)
  from visitor_messages_skip_malformed [of "messagesRoot []"] absent
  have none: "getFirstTenUserVisitorMessages (messagesRoot []) =
      ([], Some (New ''visitor messages xmlpath did not return a result''))"
    by simp
  have run: "GetUserProfilePage (pageOnlyClient (messagesRoot ?blocks)) (memberURL ''3'') =
      Return (\<lparr>UserName = ''Kalcor'', JoinDate = '''', TotalPosts = 0, Reputation = 0,
              BioText = '''',
              VisitorMessages =
                [VisitorMessage ''Alice'' ''Welcome back'', VisitorMessage ''Bob'' ''Nice script'',
                 VisitorMessage ''Carol'' ''Thanks''],
              Errors =
                [New ''join date xmlpath did not return a result'',
                 New ''total posts xmlpath did not return a result'',
                 Wrap (Transport ''connection refused'') ''cannot get user's posts'',
                 New ''user bio xmlpath did not return a result'']\<rparr>,
             None)"
    by (simp add: messagesRoot_profile three)
  from present three none run show ?thesis by (intro conjI)
qed

text \<open>
  C9, amended. Let \<open>posts\<close> be the text of the total-posts item and \<open>reputation\<close> the text
  the reputation lookup has found, each with its label and every comma removed. When the
  text is a numeral whose value fits Go's \<^verbatim>\<open>int\<close> (64 bits), the extractor returns that
  value and no error. In every other case (no numeral, or a numeral beyond the range of
  \<^verbatim>\<open>int\<close>) it returns 0 and an error; it does not panic.
\<close>

theorem numeric_fields_read:
  assumes "Iter root totalPostsPath = n # ns"
    and "posts = filter (\<lambda>c. c \<noteq> CHR '','') (TrimPrefix (Node_String n) ''Total Posts: '')"
    and "GetHTMLRoot fc (searchURL forumUserID) = Inr root'"
    and "Iter root' postLinkPath = link # links"
    and "GetHTMLRoot fc (postURL (Node_String link)) = Inr root''"
    and "index (Split (Node_String link) CHR ''#'') 1 = Return anchor"
    and "Compiles fc (reputationPath anchor)"
    and "reputation = filter (\<lambda>c. c \<noteq> CHR '','')
           (TrimPrefix (lastString (Iter root'' (reputationPath anchor)) '''') ''Reputation: '')"
  shows "(numeric posts \<and> inIntRange (numericValue posts) \<longrightarrow>
            getTotalPosts root = (numericValue posts, None)) \<and>
         (\<not> (numeric posts \<and> inIntRange (numericValue posts)) \<longrightarrow>
            getTotalPosts root = (0, Some (New ''cannot convert posts to integer''))) \<and>
         (numeric reputation \<and> inIntRange (numericValue reputation) \<longrightarrow>
            getReputation fc forumUserID = Return (numericValue reputation, None)) \<and>
         (\<not> (numeric reputation \<and> inIntRange (numericValue reputation)) \<longrightarrow>
            (\<exists>err. getReputation fc forumUserID =
               Return (0, Some (Wrap err ''cannot convert reputation to integer''))))"
proof (intro conjI impI)
  note total = getTotalPosts_found [OF assms(1), folded assms(2)]
  note looked = getReputation_reached [OF assms(3-7) refl, folded assms(8)]
  {
    assume "numeric posts \<and> inIntRange (numericValue posts)"
    then have "Atoi posts = Inr (numericValue posts)" by (simp add: Atoi_reads)
    then show "getTotalPosts root = (numericValue posts, None)"
      unfolding total by simp
  next
    assume "\<not> (numeric posts \<and> inIntRange (numericValue posts))"
    then obtain e where "Atoi posts = Inl e" using Atoi_fails by blast
    then show "getTotalPosts root = (0, Some (New ''cannot convert posts to integer''))"
      unfolding total by simp
  next
    assume "numeric reputation \<and> inIntRange (numericValue reputation)"
    then have "Atoi reputation = Inr (numericValue reputation)" by (simp add: Atoi_reads)
    then show "getReputation fc forumUserID = Return (numericValue reputation, None)"
      unfolding looked by simp
  next
    assume "\<not> (numeric reputation \<and> inIntRange (numericValue reputation))"
    then obtain e where "Atoi reputation = Inl e" using Atoi_fails by blast
    then show "\<exists>err. getReputation fc forumUserID =
        Return (0, Some (Wrap err ''cannot convert reputation to integer''))"
      unfolding looked by simp
  }
qed

text \<open>
  The claim as stated fails beyond the range of \<^verbatim>\<open>int\<close>: the text
  \<open>9,223,372,036,854,775,808\<close> is the numeral of \<open>2^63\<close> once its commas are removed,
  and the extractor returns 0 and an error.
\<close>

theorem numeric_fields_read_counterexample:
  "Replace (TrimPrefix ''Total Posts: 9,223,372,036,854,775,808'' ''Total Posts: '')
     CHR '','' '''' = ''9223372036854775808'' \<and>
   numeric ''9223372036854775808'' \<and>
   numericValue ''9223372036854775808'' = 9223372036854775808 \<and>
   getTotalPosts (profileRoot ''Kalcor'' ''Total Posts: 9,223,372,036,854,775,808'') =
     (0, Some (New ''cannot convert posts to integer''))"
  by (simp add: profileRoot_totalPosts TrimPrefix_def HasPrefix_def Atoi_def isDigit_def
      digitVal_def numeric_def numericValue_def)

theorem numeric_fields_read_witness:
  "getTotalPosts (profileRoot ''Kalcor'' ''Total Posts: 12,345'') = (12345, None) \<and>
   getReputation
     (reputationClient ''showthread.php?p=7#post7'' [leaf ''Reputation: -1,234'']) ''3'' =
     Return (- 1234, None) \<and>
   getTotalPosts (profileRoot ''Kalcor'' ''Total Posts: n/a'') =
     (0, Some (New ''cannot convert posts to integer'')) \<and>
   (\<exists>err. getReputation
      (reputationClient ''showthread.php?p=7#post7'' [leaf ''Reputation: hidden'']) ''3'' =
      Return (0, Some (Wrap err ''cannot convert reputation to integer'')))"
proof -
  have item: "Iter (profileRoot ''Kalcor'' posts) totalPostsPath = leaf posts # []" for posts
    using paths_distinct by (simp add: profileRoot_def)
  have link: "Iter (searchRoot ''showthread.php?p=7#post7'') postLinkPath =
      leaf ''showthread.php?p=7#post7'' # []"
    by (rule searchRoot_link)
  have page: "GetHTMLRoot (reputationClient ''showthread.php?p=7#post7'' found)
      (postURL (Node_String (leaf ''showthread.php?p=7#post7''))) = Inr (discussionRoot found)"
    for found
    unfolding leaf_String by (rule reputationClient_post)
  have anchor: "index (Split (Node_String (leaf ''showthread.php?p=7#post7'')) CHR ''#'') 1 =
      Return ''post7''"
    unfolding leaf_String by (rule Split_fragment)
  note good = numeric_fields_read [OF item refl reputationClient_search link page anchor
      reputationClient_compiles refl,
      of "''Total Posts: 12,345''" "[leaf ''Reputation: -1,234'']"]
  note bad = numeric_fields_read [OF item refl reputationClient_search link page anchor
      reputationClient_compiles refl,
      of "''Total Posts: n/a''" "[leaf ''Reputation: hidden'']"]
  have posts: "filter (\<lambda>c. c \<noteq> CHR '','')
      (TrimPrefix (Node_String (leaf ''Total Posts: 12,345'')) ''Total Posts: '') = ''12345''"
    by (simp add: leaf_def TrimPrefix_def HasPrefix_def)
  have reputation: "filter (\<lambda>c. c \<noteq> CHR '','')
      (TrimPrefix (lastString (Iter (discussionRoot [leaf ''Reputation: -1,234''])
         (reputationPath ''post7'')) '''') ''Reputation: '') = ''-1234''"
    by (simp add: discussionRoot_found leaf_def TrimPrefix_def HasPrefix_def)
  have numerals: "numeric ''12345'' \<and> inIntRange (numericValue ''12345'')"
    "numeric ''-1234'' \<and> inIntRange (numericValue ''-1234'')"
    "numericValue ''12345'' = 12345" "numericValue ''-1234'' = - 1234"
    by (simp_all add: numeric_def numericValue_def inIntRange_def isDigit_def digitVal_def)
  have posts': "filter (\<lambda>c. c \<noteq> CHR '','')
      (TrimPrefix (Node_String (leaf ''Total Posts: n/a'')) ''Total Posts: '') = ''n/a''"
    by (simp add: leaf_def TrimPrefix_def HasPrefix_def)
  have reputation': "filter (\<lambda>c. c \<noteq> CHR '','')
      (TrimPrefix (lastString (Iter (discussionRoot [leaf ''Reputation: hidden''])
         (reputationPath ''post7'')) '''') ''Reputation: '') = ''hidden''"
    by (simp add: discussionRoot_found leaf_def TrimPrefix_def HasPrefix_def)
  have texts: "\<not> (numeric ''n/a'' \<and> inIntRange (numericValue ''n/a''))"
    "\<not> (numeric ''hidden'' \<and> inIntRange (numericValue ''hidden''))"
    by (simp_all add: numeric_def isDigit_def)
  from good [unfolded posts reputation] numerals
  have a: "getTotalPosts (profileRoot ''Kalcor'' ''Total Posts: 12,345'') = (12345, None)"
    and b: "getReputation
      (reputationClient ''showthread.php?p=7#post7'' [leaf ''Reputation: -1,234'']) ''3'' =
      Return (- 1234, None)"
    by simp_all
  from bad [unfolded posts' reputation'] texts
  have c: "getTotalPosts (profileRoot ''Kalcor'' ''Total Posts: n/a'') =
      (0, Some (New ''cannot convert posts to integer''))"
    and d: "\<exists>err. getReputation
      (reputationClient ''showthread.php?p=7#post7'' [leaf ''Reputation: hidden'']) ''3'' =
      Return (0, Some (Wrap err ''cannot convert reputation to integer''))"
    by blast+
  from a b c d show ?thesis by (intro conjI)
qed

end
